theory Spec2Isabelle
  imports Complex_Main "HOL-Library.Word"
begin

section \<open>Data model of \<^verbatim>\<open>thermocouple_sensor.h\<close>\<close>

text \<open>
  The library converts between thermocouple voltage (mV) and temperature (degrees Celsius)
  with piecewise polynomials. The embedding follows \<^verbatim>\<open>thermocouple_sensor.c\<close>
  function by function.

  \<^item> A C \<^verbatim>\<open>double\<close> is modelled as a \<^typ>\<open>real\<close>: every decimal literal of the
    source denotes the rational number it spells, and \<open>+\<close>, \<open>*\<close>, \<open>\<le>\<close> are exact.
    \<^verbatim>\<open>exp\<close> is the real exponential and \<^verbatim>\<open>pow(x, 2.0)\<close> is the square.
  \<^item> A pointer to a constant array is a \<^typ>\<open>'a list option\<close>: \<open>None\<close> is \<^verbatim>\<open>NULL\<close>.
    Reading through \<^verbatim>\<open>NULL\<close> or past the end of an array is a \<open>fault\<close>, so every
    function that reads an array returns \<open>fault + _\<close>.
  \<^item> \<^verbatim>\<open>uint8_t\<close> and \<^verbatim>\<open>int8_t\<close> are \<^typ>\<open>8 word\<close>, read with \<open>unat\<close> and \<open>sint\<close>;
    the conversion of an \<^verbatim>\<open>int\<close> to \<^verbatim>\<open>int8_t\<close> wraps modulo 256.
    \<^verbatim>\<open>size_t\<close> counters never leave the range of a table and are \<^typ>\<open>nat\<close>.
  \<^item> The enumeration \<^verbatim>\<open>ThermocoupleType\<close> is an integer type in C, and a caller can pass
    any integer; it is modelled as \<^typ>\<open>int\<close> with the eight enumerators as constants.
\<close>

datatype fault = NullDereference | OutOfBounds

type_synonym ThermocoupleType = int

definition TC_TYPE_R :: ThermocoupleType where "TC_TYPE_R = 0"
definition TC_TYPE_S :: ThermocoupleType where "TC_TYPE_S = 1"
definition TC_TYPE_B :: ThermocoupleType where "TC_TYPE_B = 2"
definition TC_TYPE_J :: ThermocoupleType where "TC_TYPE_J = 3"
definition TC_TYPE_T :: ThermocoupleType where "TC_TYPE_T = 4"
definition TC_TYPE_E :: ThermocoupleType where "TC_TYPE_E = 5"
definition TC_TYPE_K :: ThermocoupleType where "TC_TYPE_K = 6"
definition TC_TYPE_N :: ThermocoupleType where "TC_TYPE_N = 7"

text \<open>\<^verbatim>\<open>#define TC_CONVERSION_FAILED -1.0e6\<close>\<close>

definition TC_CONVERSION_FAILED :: real where
  "TC_CONVERSION_FAILED = - 1000000"

text \<open>
  \<^verbatim>\<open>typedef struct { const double *pCoefficients; uint8_t length; } PolyCoeff;\<close>
  \<^verbatim>\<open>typedef struct { double min; double max; PolyCoeff poly; } RangePoly;\<close>
  The fields \<^verbatim>\<open>length\<close>, \<^verbatim>\<open>min\<close> and \<^verbatim>\<open>max\<close> carry a suffix, since HOL has
  constants of these names.
\<close>

record PolyCoeff =
  pCoefficients :: "real list option"
  length_u8 :: "8 word"

record RangePoly =
  min_bound :: real
  max_bound :: real
  poly :: PolyCoeff

text \<open>The calls a conversion makes, in the order it makes them.\<close>

datatype call = Call_FindPolyCoeff | Call_Polynomial_Evaluate

section \<open>The coefficient tables\<close>

text \<open>
  Each array and table of the source, in the source's order. An initialiser
  \<^verbatim>\<open>{ A, sizeof(A) / sizeof(double) }\<close> stores the number of elements of \<open>A\<close>,
  converted to \<^verbatim>\<open>uint8_t\<close>. Type K has no temperature-to-voltage table: its two
  ranges are written out in \<^verbatim>\<open>TC_CalculateVoltage\<close>.
\<close>

definition TC_Coeff_R_mVToTemp_Range1 :: "real list" where
  "TC_Coeff_R_mVToTemp_Range1 =
   [0, 188.9138, - 93.83529, 130.68619, - 227.0358, 351.45659, - 389.539, 282.39471,
    - 126.07281, 31.353611, - 3.3187769]"

definition TC_Coeff_R_mVToTemp_Range2 :: "real list" where
  "TC_Coeff_R_mVToTemp_Range2 =
   [13.34584505, 147.2644573, - 18.44024844, 4.031129726, - 0.624942836, 0.06468412046,
    - 0.004458750426, 0.0001994710149, - 0.00000531340179, 0.00000006481976217, 0]"

definition TC_Coeff_R_mVToTemp_Range3 :: "real list" where
  "TC_Coeff_R_mVToTemp_Range3 =
   [- 81.99599416, 155.3962042, - 8.342197663, 0.4279433549, - 0.0119157791,
    0.0001492290091, 0, 0, 0, 0, 0]"

definition TC_Coeff_R_mVToTemp_Range4 :: "real list" where
  "TC_Coeff_R_mVToTemp_Range4 =
   [34061.77836, - 7023.729171, 558.2903813, - 19.52394635, 0.2560740231, 0, 0, 0, 0, 0, 0]"

definition TC_R_mVToTemp :: "RangePoly list" where
  "TC_R_mVToTemp =
   [
    \<lparr> min_bound = - 0.228, max_bound = 1.923,
      poly = \<lparr> pCoefficients = Some TC_Coeff_R_mVToTemp_Range1,
               length_u8 = of_nat (length TC_Coeff_R_mVToTemp_Range1) \<rparr> \<rparr>,
    \<lparr> min_bound = 1.923, max_bound = 11.361,
      poly = \<lparr> pCoefficients = Some TC_Coeff_R_mVToTemp_Range2,
               length_u8 = of_nat (length TC_Coeff_R_mVToTemp_Range2) \<rparr> \<rparr>,
    \<lparr> min_bound = 11.361, max_bound = 19.739,
      poly = \<lparr> pCoefficients = Some TC_Coeff_R_mVToTemp_Range3,
               length_u8 = of_nat (length TC_Coeff_R_mVToTemp_Range3) \<rparr> \<rparr>,
    \<lparr> min_bound = 19.739, max_bound = 21.105,
      poly = \<lparr> pCoefficients = Some TC_Coeff_R_mVToTemp_Range4,
               length_u8 = of_nat (length TC_Coeff_R_mVToTemp_Range4) \<rparr> \<rparr>
   ]"

definition TC_R_mVToTemp_len :: nat where
  "TC_R_mVToTemp_len = length TC_R_mVToTemp"

definition TC_Coeff_R_TempToMV_Range1 :: "real list" where
  "TC_Coeff_R_TempToMV_Range1 =
   [0, 0.00528961729765, 0.0000139166589782, - 0.0000000238855693017,
    0.0000000000356916001063, - 0.0000000000000462347666298,
    0.0000000000000000500777441034, - 0.0000000000000000000373105886191,
    0.0000000000000000000000157716482367, - 0.00000000000000000000000000281038625251]"

definition TC_Coeff_R_TempToMV_Range2 :: "real list" where
  "TC_Coeff_R_TempToMV_Range2 =
   [2.95157925316, - 0.00252061251332, 0.0000159564501865, - 0.00000000764085947576,
    0.00000000000205305291024, - 0.000000000000000293359668173]"

definition TC_Coeff_R_TempToMV_Range3 :: "real list" where
  "TC_Coeff_R_TempToMV_Range3 =
   [152.232118209, - 0.268819888545, 0.000171280280471, - 0.0000000345895706453,
    - 0.00000000000000934633971046]"

definition TC_R_TempToMV :: "RangePoly list" where
  "TC_R_TempToMV =
   [
    \<lparr> min_bound = - 50.5, max_bound = 1064.18,
      poly = \<lparr> pCoefficients = Some TC_Coeff_R_TempToMV_Range1,
               length_u8 = of_nat (length TC_Coeff_R_TempToMV_Range1) \<rparr> \<rparr>,
    \<lparr> min_bound = 1064.18, max_bound = 1664.5,
      poly = \<lparr> pCoefficients = Some TC_Coeff_R_TempToMV_Range2,
               length_u8 = of_nat (length TC_Coeff_R_TempToMV_Range2) \<rparr> \<rparr>,
    \<lparr> min_bound = 1664.5, max_bound = 1768.5,
      poly = \<lparr> pCoefficients = Some TC_Coeff_R_TempToMV_Range3,
               length_u8 = of_nat (length TC_Coeff_R_TempToMV_Range3) \<rparr> \<rparr>
   ]"

definition TC_R_TempToMV_len :: nat where
  "TC_R_TempToMV_len = length TC_R_TempToMV"

definition TC_Coeff_S_mVToTemp_Range1 :: "real list" where
  "TC_Coeff_S_mVToTemp_Range1 =
   [0, 184.94946, - 80.0504062, 102.23743, - 152.248592, 188.821343, - 159.085941,
    82.302788, - 23.4181944, 2.7978626]"

definition TC_Coeff_S_mVToTemp_Range2 :: "real list" where
  "TC_Coeff_S_mVToTemp_Range2 =
   [12.91507177, 146.6298863, - 15.34713402, 3.145945973, - 0.4163257839, 0.03187963771,
    - 0.0012916375, 0.00002183475087, - 0.0000001447379511, 0.000000008211272125]"

definition TC_Coeff_S_mVToTemp_Range3 :: "real list" where
  "TC_Coeff_S_mVToTemp_Range3 =
   [- 80.87801117, 162.1573104, - 8.536869453, 0.4719686976, - 0.01441693666,
    0.000208161889, 0, 0, 0, 0]"

definition TC_Coeff_S_mVToTemp_Range4 :: "real list" where
  "TC_Coeff_S_mVToTemp_Range4 =
   [53338.75126, - 12358.92298, 1092.657613, - 42.65693686, 0.624720542, 0, 0, 0, 0, 0]"

definition TC_S_mVToTemp :: "RangePoly list" where
  "TC_S_mVToTemp =
   [
    \<lparr> min_bound = - 0.237, max_bound = 1.874,
      poly = \<lparr> pCoefficients = Some TC_Coeff_S_mVToTemp_Range1,
               length_u8 = of_nat (length TC_Coeff_S_mVToTemp_Range1) \<rparr> \<rparr>,
    \<lparr> min_bound = 1.874, max_bound = 10.332,
      poly = \<lparr> pCoefficients = Some TC_Coeff_S_mVToTemp_Range2,
               length_u8 = of_nat (length TC_Coeff_S_mVToTemp_Range2) \<rparr> \<rparr>,
    \<lparr> min_bound = 10.332, max_bound = 17.536,
      poly = \<lparr> pCoefficients = Some TC_Coeff_S_mVToTemp_Range3,
               length_u8 = of_nat (length TC_Coeff_S_mVToTemp_Range3) \<rparr> \<rparr>,
    \<lparr> min_bound = 17.536, max_bound = 18.697,
      poly = \<lparr> pCoefficients = Some TC_Coeff_S_mVToTemp_Range4,
               length_u8 = of_nat (length TC_Coeff_S_mVToTemp_Range4) \<rparr> \<rparr>
   ]"

definition TC_S_mVToTemp_len :: nat where
  "TC_S_mVToTemp_len = length TC_S_mVToTemp"

definition TC_Coeff_S_TempToMV_Range1 :: "real list" where
  "TC_Coeff_S_TempToMV_Range1 =
   [0, 0.00540313308631, 0.000012593428974, - 0.0000000232477968689,
    0.0000000000322028823036, - 0.0000000000000331465196389,
    0.0000000000000000255744251786, - 0.0000000000000000000125068871393,
    0.00000000000000000000000271443176145]"

definition TC_Coeff_S_TempToMV_Range2 :: "real list" where
  "TC_Coeff_S_TempToMV_Range2 =
   [1.32900444085, 0.00334509311344, 0.00000654805192818, - 0.00000000164856259209,
    0.0000000000000129989605174]"

definition TC_Coeff_S_TempToMV_Range3 :: "real list" where
  "TC_Coeff_S_TempToMV_Range3 =
   [146.628232636, - 0.258430516752, 0.000163693574641, - 0.0000000330439046987,
    - 0.00000000000000943223690612]"

definition TC_S_TempToMV :: "RangePoly list" where
  "TC_S_TempToMV =
   [
    \<lparr> min_bound = - 50.5, max_bound = 1064.18,
      poly = \<lparr> pCoefficients = Some TC_Coeff_S_TempToMV_Range1,
               length_u8 = of_nat (length TC_Coeff_S_TempToMV_Range1) \<rparr> \<rparr>,
    \<lparr> min_bound = 1064.18, max_bound = 1664.5,
      poly = \<lparr> pCoefficients = Some TC_Coeff_S_TempToMV_Range2,
               length_u8 = of_nat (length TC_Coeff_S_TempToMV_Range2) \<rparr> \<rparr>,
    \<lparr> min_bound = 1664.5, max_bound = 1768.5,
      poly = \<lparr> pCoefficients = Some TC_Coeff_S_TempToMV_Range3,
               length_u8 = of_nat (length TC_Coeff_S_TempToMV_Range3) \<rparr> \<rparr>
   ]"

definition TC_S_TempToMV_len :: nat where
  "TC_S_TempToMV_len = length TC_S_TempToMV"

definition TC_Coeff_B_mVToTemp_Range1 :: "real list" where
  "TC_Coeff_B_mVToTemp_Range1 =
   [98.423321, 699.715, - 847.65304, 1005.2644, - 833.45952, 455.08542, - 155.23037,
    29.88675, - 2.474286]"

definition TC_Coeff_B_mVToTemp_Range2 :: "real list" where
  "TC_Coeff_B_mVToTemp_Range2 =
   [213.15071, 285.10504, - 52.742887, 9.9160804, - 1.2965303, 0.1119587, - 0.0060625199,
    0.00018661696, - 0.0000024878585]"

definition TC_B_mVToTemp :: "RangePoly list" where
  "TC_B_mVToTemp =
   [
    \<lparr> min_bound = 0.292, max_bound = 2.431,
      poly = \<lparr> pCoefficients = Some TC_Coeff_B_mVToTemp_Range1,
               length_u8 = of_nat (length TC_Coeff_B_mVToTemp_Range1) \<rparr> \<rparr>,
    \<lparr> min_bound = 2.431, max_bound = 13.825,
      poly = \<lparr> pCoefficients = Some TC_Coeff_B_mVToTemp_Range2,
               length_u8 = of_nat (length TC_Coeff_B_mVToTemp_Range2) \<rparr> \<rparr>
   ]"

definition TC_B_mVToTemp_len :: nat where
  "TC_B_mVToTemp_len = length TC_B_mVToTemp"

definition TC_Coeff_B_TempToMV_Range1 :: "real list" where
  "TC_Coeff_B_TempToMV_Range1 =
   [0, - 0.00024650818346, 0.0000059040421171, - 0.0000000013257931636,
    0.0000000000015668291901, - 0.000000000000001694452924,
    0.00000000000000000062990347094]"

definition TC_Coeff_B_TempToMV_Range2 :: "real list" where
  "TC_Coeff_B_TempToMV_Range2 =
   [- 3.8938168621, 0.02857174747, - 0.000084885104785, 0.00000015785280164,
    - 0.00000000016835344864, 0.00000000000011109794013, - 0.000000000000000044515431033,
    0.0000000000000000000098975640821, - 0.00000000000000000000000093791330289]"

definition TC_B_TempToMV :: "RangePoly list" where
  "TC_B_TempToMV =
   [
    \<lparr> min_bound = - 0.5, max_bound = 630.615,
      poly = \<lparr> pCoefficients = Some TC_Coeff_B_TempToMV_Range1,
               length_u8 = of_nat (length TC_Coeff_B_TempToMV_Range1) \<rparr> \<rparr>,
    \<lparr> min_bound = 630.615, max_bound = 1820.5,
      poly = \<lparr> pCoefficients = Some TC_Coeff_B_TempToMV_Range2,
               length_u8 = of_nat (length TC_Coeff_B_TempToMV_Range2) \<rparr> \<rparr>
   ]"

definition TC_B_TempToMV_len :: nat where
  "TC_B_TempToMV_len = length TC_B_TempToMV"

definition TC_Coeff_J_mVToTemp_Range1 :: "real list" where
  "TC_Coeff_J_mVToTemp_Range1 =
   [0, 19.528268, - 1.2286185, - 1.0752178, - 0.59086933, - 0.17256713, - 0.028131513,
    - 0.002396337, - 0.000083823321]"

definition TC_Coeff_J_mVToTemp_Range2 :: "real list" where
  "TC_Coeff_J_mVToTemp_Range2 =
   [0, 19.78425, - 0.2001204, 0.01036969, - 0.0002549687, 0.000003585153,
    - 0.00000005344285, 0.000000000509989, 0]"

definition TC_Coeff_J_mVToTemp_Range3 :: "real list" where
  "TC_Coeff_J_mVToTemp_Range3 =
   [- 3113.58187, 300.543684, - 9.9477323, 0.17027663, - 0.00143033468, 0.00000473886084,
    0, 0, 0]"

definition TC_J_mVToTemp :: "RangePoly list" where
  "TC_J_mVToTemp =
   [
    \<lparr> min_bound = - 8.1, max_bound = 0,
      poly = \<lparr> pCoefficients = Some TC_Coeff_J_mVToTemp_Range1,
               length_u8 = of_nat (length TC_Coeff_J_mVToTemp_Range1) \<rparr> \<rparr>,
    \<lparr> min_bound = 0, max_bound = 42.914,
      poly = \<lparr> pCoefficients = Some TC_Coeff_J_mVToTemp_Range2,
               length_u8 = of_nat (length TC_Coeff_J_mVToTemp_Range2) \<rparr> \<rparr>,
    \<lparr> min_bound = 42.914, max_bound = 69.58,
      poly = \<lparr> pCoefficients = Some TC_Coeff_J_mVToTemp_Range3,
               length_u8 = of_nat (length TC_Coeff_J_mVToTemp_Range3) \<rparr> \<rparr>
   ]"

definition TC_J_mVToTemp_len :: nat where
  "TC_J_mVToTemp_len = length TC_J_mVToTemp"

definition TC_Coeff_J_TempToMV_Range1 :: "real list" where
  "TC_Coeff_J_TempToMV_Range1 =
   [0, 0.050381187815, 0.00003047583693, - 0.00000008568106572, 0.00000000013228195295,
    - 0.00000000000017052958337, 0.00000000000000020948090697,
    - 0.00000000000000000012538395336, 0.000000000000000000000015631725697]"

definition TC_Coeff_J_TempToMV_Range2 :: "real list" where
  "TC_Coeff_J_TempToMV_Range2 =
   [296.45625681, - 1.4976127786, 0.0031787103924, - 0.0000031847686701,
    0.0000000015720819004, - 0.00000000000030691369056]"

definition TC_J_TempToMV :: "RangePoly list" where
  "TC_J_TempToMV =
   [
    \<lparr> min_bound = - 210.5, max_bound = 760,
      poly = \<lparr> pCoefficients = Some TC_Coeff_J_TempToMV_Range1,
               length_u8 = of_nat (length TC_Coeff_J_TempToMV_Range1) \<rparr> \<rparr>,
    \<lparr> min_bound = 760, max_bound = 1200.5,
      poly = \<lparr> pCoefficients = Some TC_Coeff_J_TempToMV_Range2,
               length_u8 = of_nat (length TC_Coeff_J_TempToMV_Range2) \<rparr> \<rparr>
   ]"

definition TC_J_TempToMV_len :: nat where
  "TC_J_TempToMV_len = length TC_J_TempToMV"

definition TC_Coeff_T_mVToTemp_Range1 :: "real list" where
  "TC_Coeff_T_mVToTemp_Range1 =
   [0, 25.949192, - 0.21316967, 0.79018692, 0.42527777, 0.13304473, 0.020241446,
    0.0012668171]"

definition TC_Coeff_T_mVToTemp_Range2 :: "real list" where
  "TC_Coeff_T_mVToTemp_Range2 =
   [0, 25.928, - 0.7602961, 0.04637791, - 0.002165394, 0.00006048144, - 0.0000007293422, 0]"

definition TC_T_mVToTemp :: "RangePoly list" where
  "TC_T_mVToTemp =
   [
    \<lparr> min_bound = - 5.61, max_bound = 0,
      poly = \<lparr> pCoefficients = Some TC_Coeff_T_mVToTemp_Range1,
               length_u8 = of_nat (length TC_Coeff_T_mVToTemp_Range1) \<rparr> \<rparr>,
    \<lparr> min_bound = 0, max_bound = 20.88,
      poly = \<lparr> pCoefficients = Some TC_Coeff_T_mVToTemp_Range2,
               length_u8 = of_nat (length TC_Coeff_T_mVToTemp_Range2) \<rparr> \<rparr>
   ]"

definition TC_T_mVToTemp_len :: nat where
  "TC_T_mVToTemp_len = length TC_T_mVToTemp"

definition TC_Coeff_T_TempToMV_Range1 :: "real list" where
  "TC_Coeff_T_TempToMV_Range1 =
   [0, 0.038748106364, 0.000044194434347, 0.00000011844323105, 0.000000020032973554,
    0.00000000090138019559, 0.000000000022651156593, 0.00000000000036071154205,
    0.0000000000000038493939883, 0.000000000000000028213521925,
    0.00000000000000000014251594779, 0.00000000000000000000048768662286,
    0.000000000000000000000001079553927, 0.0000000000000000000000000013945027062,
    0.00000000000000000000000000000079795153927]"

definition TC_Coeff_T_TempToMV_Range2 :: "real list" where
  "TC_Coeff_T_TempToMV_Range2 =
   [0, 0.038748106364, 0.00003329222788, 0.00000020618243404, - 0.0000000021882256846,
    0.000000000010996880928, - 0.000000000000030815758772, 0.00000000000000004547913529,
    - 0.000000000000000000027512901673]"

definition TC_T_TempToMV :: "RangePoly list" where
  "TC_T_TempToMV =
   [
    \<lparr> min_bound = - 270.5, max_bound = 0,
      poly = \<lparr> pCoefficients = Some TC_Coeff_T_TempToMV_Range1,
               length_u8 = of_nat (length TC_Coeff_T_TempToMV_Range1) \<rparr> \<rparr>,
    \<lparr> min_bound = 0, max_bound = 400.5,
      poly = \<lparr> pCoefficients = Some TC_Coeff_T_TempToMV_Range2,
               length_u8 = of_nat (length TC_Coeff_T_TempToMV_Range2) \<rparr> \<rparr>
   ]"

definition TC_T_TempToMV_len :: nat where
  "TC_T_TempToMV_len = length TC_T_TempToMV"

definition TC_Coeff_E_mVToTemp_Range1 :: "real list" where
  "TC_Coeff_E_mVToTemp_Range1 =
   [0, 16.977288, - 0.4351497, - 0.15859697, - 0.092502871, - 0.026084314, - 0.0041360199,
    - 0.0003403403, - 0.00001156489, 0]"

definition TC_Coeff_E_mVToTemp_Range2 :: "real list" where
  "TC_Coeff_E_mVToTemp_Range2 =
   [0, 17.057035, - 0.23301759, 0.0065435585, - 0.000073562749, - 0.0000017896001,
    0.000000084036165, - 0.0000000013735879, 0.000000000010629823,
    - 0.000000000000032447087]"

definition TC_E_mVToTemp :: "RangePoly list" where
  "TC_E_mVToTemp =
   [
    \<lparr> min_bound = - 8.84, max_bound = 0,
      poly = \<lparr> pCoefficients = Some TC_Coeff_E_mVToTemp_Range1,
               length_u8 = of_nat (length TC_Coeff_E_mVToTemp_Range1) \<rparr> \<rparr>,
    \<lparr> min_bound = 0, max_bound = 76.38,
      poly = \<lparr> pCoefficients = Some TC_Coeff_E_mVToTemp_Range2,
               length_u8 = of_nat (length TC_Coeff_E_mVToTemp_Range2) \<rparr> \<rparr>
   ]"

definition TC_E_mVToTemp_len :: nat where
  "TC_E_mVToTemp_len = length TC_E_mVToTemp"

definition TC_Coeff_E_TempToMV_Range1 :: "real list" where
  "TC_Coeff_E_TempToMV_Range1 =
   [0, 0.058665508708, 0.000045410977124, - 0.00000077998048686, - 0.000000025800160843,
    - 0.00000000059452583057, - 0.0000000000093214058667, - 0.00000000000010287605534,
    - 0.00000000000000080370123621, - 0.0000000000000000043979497391,
    - 0.000000000000000000016414776355, - 0.000000000000000000000039673619516,
    - 0.000000000000000000000000055827328721, - 0.000000000000000000000000000034657842013]"

definition TC_Coeff_E_TempToMV_Range2 :: "real list" where
  "TC_Coeff_E_TempToMV_Range2 =
   [0, 0.05866550871, 0.000045032275582, 0.000000028908407212, - 0.00000000033056896652,
    0.0000000000006502440327, - 0.00000000000000019197495504,
    - 0.0000000000000000012536600497, 0.0000000000000000000021489217569,
    - 0.0000000000000000000000014388041782, 0.00000000000000000000000000035960899481]"

definition TC_E_TempToMV :: "RangePoly list" where
  "TC_E_TempToMV =
   [
    \<lparr> min_bound = - 270.5, max_bound = 0,
      poly = \<lparr> pCoefficients = Some TC_Coeff_E_TempToMV_Range1,
               length_u8 = of_nat (length TC_Coeff_E_TempToMV_Range1) \<rparr> \<rparr>,
    \<lparr> min_bound = 0, max_bound = 1000.5,
      poly = \<lparr> pCoefficients = Some TC_Coeff_E_TempToMV_Range2,
               length_u8 = of_nat (length TC_Coeff_E_TempToMV_Range2) \<rparr> \<rparr>
   ]"

definition TC_E_TempToMV_len :: nat where
  "TC_E_TempToMV_len = length TC_E_TempToMV"

definition TC_Coeff_K_mVToTemp_Range1 :: "real list" where
  "TC_Coeff_K_mVToTemp_Range1 =
   [0, 25.173462, - 1.1662878, - 1.0833638, - 0.8977354, - 0.37342377, - 0.086632643,
    - 0.010450598, - 0.00051920577, 0]"

definition TC_Coeff_K_mVToTemp_Range2 :: "real list" where
  "TC_Coeff_K_mVToTemp_Range2 =
   [0, 25.08355, 0.07860106, - 0.2503131, 0.0831527, - 0.01228034, 0.0009804036,
    - 0.0000441303, 0.000001057734, - 0.00000001052755]"

definition TC_Coeff_K_mVToTemp_Range3 :: "real list" where
  "TC_Coeff_K_mVToTemp_Range3 =
   [- 131.8058, 48.30222, - 1.646031, 0.05464731, - 0.0009650715, 0.000008802193,
    - 0.0000000311081, 0, 0, 0]"

definition TC_K_mVToTemp :: "RangePoly list" where
  "TC_K_mVToTemp =
   [
    \<lparr> min_bound = - 5.895, max_bound = 0,
      poly = \<lparr> pCoefficients = Some TC_Coeff_K_mVToTemp_Range1,
               length_u8 = of_nat (length TC_Coeff_K_mVToTemp_Range1) \<rparr> \<rparr>,
    \<lparr> min_bound = 0, max_bound = 20.644,
      poly = \<lparr> pCoefficients = Some TC_Coeff_K_mVToTemp_Range2,
               length_u8 = of_nat (length TC_Coeff_K_mVToTemp_Range2) \<rparr> \<rparr>,
    \<lparr> min_bound = 20.644, max_bound = 52.425,
      poly = \<lparr> pCoefficients = Some TC_Coeff_K_mVToTemp_Range3,
               length_u8 = of_nat (length TC_Coeff_K_mVToTemp_Range3) \<rparr> \<rparr>
   ]"

definition TC_K_mVToTemp_len :: nat where
  "TC_K_mVToTemp_len = length TC_K_mVToTemp"

definition TC_Coeff_K_TempToMV_A0 :: real where
  "TC_Coeff_K_TempToMV_A0 = 0.1185976"

definition TC_Coeff_K_TempToMV_A1 :: real where
  "TC_Coeff_K_TempToMV_A1 = - 0.0001183432"

definition TC_Coeff_K_TempToMV_A2 :: real where
  "TC_Coeff_K_TempToMV_A2 = 126.9686"

definition TC_Coeff_K_TempToMV_Range1 :: "real list" where
  "TC_Coeff_K_TempToMV_Range1 =
   [0, 0.039450128025, 0.000023622373598, - 0.00000032858906784, - 0.0000000049904828777,
    - 0.000000000067509059173, - 0.00000000000057410327428, - 0.0000000000000031088872894,
    - 0.000000000000000010451609365, - 0.000000000000000000019889266878,
    - 0.000000000000000000000016322697486]"

definition TC_Coeff_K_TempToMV_Range2 :: "real list" where
  "TC_Coeff_K_TempToMV_Range2 =
   [- 0.017600413686, 0.038921204975, 0.000018558770032, - 0.000000099457592874,
    0.00000000031840945719, - 0.00000000000056072844889, 0.00000000000000056075059059,
    - 0.00000000000000000032020720003, 0.000000000000000000000097151147152,
    - 0.000000000000000000000000012104721275]"

definition TC_Coeff_N_mVToTemp_Range1 :: "real list" where
  "TC_Coeff_N_mVToTemp_Range1 =
   [0, 38.436847, 1.1010485, 5.2229312, 7.2060525, 5.8488586, 2.7754916, 0.77075166,
    0.11582665, 0.0073138868]"

definition TC_Coeff_N_mVToTemp_Range2 :: "real list" where
  "TC_Coeff_N_mVToTemp_Range2 =
   [0, 38.6896, - 1.08267, 0.0470205, - 0.00000212169, - 0.000117272, 0.0000053928,
    - 0.0000000798156, 0, 0]"

definition TC_Coeff_N_mVToTemp_Range3 :: "real list" where
  "TC_Coeff_N_mVToTemp_Range3 =
   [19.72485, 33.00943, - 0.3915159, 0.009855391, - 0.0001274371, 0.0000007767022, 0, 0, 0,
    0]"

definition TC_N_mVToTemp :: "RangePoly list" where
  "TC_N_mVToTemp =
   [
    \<lparr> min_bound = - 4, max_bound = 0,
      poly = \<lparr> pCoefficients = Some TC_Coeff_N_mVToTemp_Range1,
               length_u8 = of_nat (length TC_Coeff_N_mVToTemp_Range1) \<rparr> \<rparr>,
    \<lparr> min_bound = 0, max_bound = 20.613,
      poly = \<lparr> pCoefficients = Some TC_Coeff_N_mVToTemp_Range2,
               length_u8 = of_nat (length TC_Coeff_N_mVToTemp_Range2) \<rparr> \<rparr>,
    \<lparr> min_bound = 20.613, max_bound = 47.52,
      poly = \<lparr> pCoefficients = Some TC_Coeff_N_mVToTemp_Range3,
               length_u8 = of_nat (length TC_Coeff_N_mVToTemp_Range3) \<rparr> \<rparr>
   ]"

definition TC_N_mVToTemp_len :: nat where
  "TC_N_mVToTemp_len = length TC_N_mVToTemp"

definition TC_Coeff_N_TempToMV_Range1 :: "real list" where
  "TC_Coeff_N_TempToMV_Range1 =
   [0, 0.026159105962, 0.000010957484228, - 0.000000093841111554,
    - 0.000000000046412039759, - 0.0000000000026303357716, - 0.000000000000022653438003,
    - 0.000000000000000076089300791, - 0.000000000000000000093419667835]"

definition TC_Coeff_N_TempToMV_Range2 :: "real list" where
  "TC_Coeff_N_TempToMV_Range2 =
   [0, 0.025929394601, 0.00001571014188, 0.000000043825627237, - 0.00000000025261169794,
    0.00000000000064311819339, - 0.0000000000000010063471519,
    0.00000000000000000099745338992, - 0.00000000000000000000060863245607,
    0.00000000000000000000000020849229339, - 0.000000000000000000000000000030682196151]"

definition TC_N_TempToMV :: "RangePoly list" where
  "TC_N_TempToMV =
   [
    \<lparr> min_bound = - 270.5, max_bound = 0,
      poly = \<lparr> pCoefficients = Some TC_Coeff_N_TempToMV_Range1,
               length_u8 = of_nat (length TC_Coeff_N_TempToMV_Range1) \<rparr> \<rparr>,
    \<lparr> min_bound = 0, max_bound = 1300.5,
      poly = \<lparr> pCoefficients = Some TC_Coeff_N_TempToMV_Range2,
               length_u8 = of_nat (length TC_Coeff_N_TempToMV_Range2) \<rparr> \<rparr>
   ]"

definition TC_N_TempToMV_len :: nat where
  "TC_N_TempToMV_len = length TC_N_TempToMV"

section \<open>The functions\<close>

subsection \<open>\<^verbatim>\<open>FindPolyCoeff\<close>\<close>

text \<open>
  \<^verbatim>\<open>for (i = 0U; i < len; ++i)
    if ((value >= ranges[i].min) && (value <= ranges[i].max)) { result = &ranges[i].poly; break; }\<close>
  The result \<open>Inr None\<close> is the \<^verbatim>\<open>NULL\<close> the source returns when no range holds the value.
\<close>

function FindPolyCoeff_loop ::
  "RangePoly list \<Rightarrow> nat \<Rightarrow> real \<Rightarrow> nat \<Rightarrow> fault + PolyCoeff option" where
  "FindPolyCoeff_loop ranges len v i =
     (if i < len then
        (if i < length ranges then
           (if v \<ge> min_bound (ranges ! i) \<and> v \<le> max_bound (ranges ! i)
            then Inr (Some (poly (ranges ! i)))
            else FindPolyCoeff_loop ranges len v (Suc i))
         else Inl OutOfBounds)
      else Inr None)"
  by pat_completeness auto
termination
  by (relation "measure (\<lambda>(ranges, len, v, i). len - i)") auto

declare FindPolyCoeff_loop.simps [simp del]

definition FindPolyCoeff :: "RangePoly list \<Rightarrow> nat \<Rightarrow> real \<Rightarrow> fault + PolyCoeff option" where
  "FindPolyCoeff ranges len v = FindPolyCoeff_loop ranges len v 0"

subsection \<open>\<^verbatim>\<open>Polynomial_Evaluate\<close>\<close>

text \<open>
  \<^verbatim>\<open>double result = 0;
  for (int8_t i = length - 1; i >= 0; --i) result = (result * input) + pCoefficient[i];\<close>
  The counter is an \<^verbatim>\<open>int8_t\<close>: it starts at \<open>length - 1\<close> converted to eight signed
  bits, and the loop runs while it is not negative.
\<close>

function Polynomial_Evaluate_loop ::
  "real list option \<Rightarrow> real \<Rightarrow> 8 word \<Rightarrow> real \<Rightarrow> fault + real" where
  "Polynomial_Evaluate_loop pCoefficient input i result =
     (if 0 \<le> sint i then
        (case pCoefficient of
           None \<Rightarrow> Inl NullDereference
         | Some cs \<Rightarrow>
             if unat i < length cs
             then Polynomial_Evaluate_loop pCoefficient input (i - 1)
                    (result * input + cs ! unat i)
             else Inl OutOfBounds)
      else Inr result)"
  by pat_completeness auto
termination
proof (relation "measure (\<lambda>(pCoefficient, input, i, result). nat (sint i + 1))")
  show "wf (measure (\<lambda>(pCoefficient, input, i, result). nat (sint (i::8 word) + 1)))"
    by simp
next
  fix pCoefficient :: "real list option" and input :: real and i :: "8 word"
    and result :: real and cs :: "real list"
  assume nonneg: "0 \<le> sint i"
  have "sint (i - 1) = signed_take_bit 7 (sint i - 1)"
    by (simp add: sint_word_ariths)
  also have "\<dots> = sint i - 1"
  proof (rule signed_take_bit_int_eq_self)
    show "- (2 ^ 7) \<le> sint i - 1" using nonneg by simp
    show "sint i - 1 < 2 ^ 7" using sint_lt [of i] by simp
  qed
  finally have "sint (i - 1) = sint i - 1" .
  with nonneg
  show "((pCoefficient, input, i - 1, result * input + cs ! unat i),
         (pCoefficient, input, i, result))
        \<in> measure (\<lambda>(pCoefficient, input, i, result). nat (sint i + 1))"
    by simp
qed

declare Polynomial_Evaluate_loop.simps [simp del]

definition Polynomial_Evaluate :: "real list option \<Rightarrow> 8 word \<Rightarrow> real \<Rightarrow> fault + real" where
  "Polynomial_Evaluate pCoefficient len input =
     Polynomial_Evaluate_loop pCoefficient input (len - 1) 0"

subsection \<open>\<^verbatim>\<open>TC_CalculateTemperature\<close>\<close>

text \<open>
  The \<^verbatim>\<open>switch\<close> sets the locals \<open>ranges\<close> and \<open>ranges_len\<close>, which start as
  \<^verbatim>\<open>NULL\<close> and \<open>0\<close> and stay so in the \<^verbatim>\<open>default\<close> case.
\<close>

definition TC_CalculateTemperature_switch ::
  "ThermocoupleType \<Rightarrow> RangePoly list option \<times> nat" where
  "TC_CalculateTemperature_switch type =
     (if type = TC_TYPE_R then (Some TC_R_mVToTemp, TC_R_mVToTemp_len)
      else if type = TC_TYPE_S then (Some TC_S_mVToTemp, TC_S_mVToTemp_len)
      else if type = TC_TYPE_B then (Some TC_B_mVToTemp, TC_B_mVToTemp_len)
      else if type = TC_TYPE_J then (Some TC_J_mVToTemp, TC_J_mVToTemp_len)
      else if type = TC_TYPE_T then (Some TC_T_mVToTemp, TC_T_mVToTemp_len)
      else if type = TC_TYPE_E then (Some TC_E_mVToTemp, TC_E_mVToTemp_len)
      else if type = TC_TYPE_K then (Some TC_K_mVToTemp, TC_K_mVToTemp_len)
      else if type = TC_TYPE_N then (Some TC_N_mVToTemp, TC_N_mVToTemp_len)
      else (None, 0))"

text \<open>
  The function returns the calls it made together with its result; the result of the C
  function is the second component.
\<close>

definition TC_CalculateTemperature_run ::
  "ThermocoupleType \<Rightarrow> real \<Rightarrow> call list \<times> (fault + real)" where
  "TC_CalculateTemperature_run type voltage =
     (let temperature = TC_CONVERSION_FAILED;
          (ranges, ranges_len) = TC_CalculateTemperature_switch type
      in case ranges of
           None \<Rightarrow> ([], Inr temperature)
         | Some rs \<Rightarrow>
             (case FindPolyCoeff rs ranges_len voltage of
                Inl e \<Rightarrow> ([Call_FindPolyCoeff], Inl e)
              | Inr None \<Rightarrow> ([Call_FindPolyCoeff], Inr temperature)
              | Inr (Some p) \<Rightarrow>
                  ([Call_FindPolyCoeff, Call_Polynomial_Evaluate],
                   Polynomial_Evaluate (pCoefficients p) (length_u8 p) voltage)))"

definition TC_CalculateTemperature :: "ThermocoupleType \<Rightarrow> real \<Rightarrow> fault + real" where
  "TC_CalculateTemperature type voltage = snd (TC_CalculateTemperature_run type voltage)"

subsection \<open>\<^verbatim>\<open>TC_CalculateVoltage\<close>\<close>

text \<open>
  The locals \<open>ranges\<close> and \<open>ranges_len\<close> after the \<^verbatim>\<open>switch\<close>. The type-K case
  and the \<^verbatim>\<open>default\<close> case leave them \<^verbatim>\<open>NULL\<close> and \<open>0\<close>.
\<close>

definition TC_CalculateVoltage_switch ::
  "ThermocoupleType \<Rightarrow> RangePoly list option \<times> nat" where
  "TC_CalculateVoltage_switch type =
     (if type = TC_TYPE_R then (Some TC_R_TempToMV, TC_R_TempToMV_len)
      else if type = TC_TYPE_S then (Some TC_S_TempToMV, TC_S_TempToMV_len)
      else if type = TC_TYPE_B then (Some TC_B_TempToMV, TC_B_TempToMV_len)
      else if type = TC_TYPE_J then (Some TC_J_TempToMV, TC_J_TempToMV_len)
      else if type = TC_TYPE_T then (Some TC_T_TempToMV, TC_T_TempToMV_len)
      else if type = TC_TYPE_E then (Some TC_E_TempToMV, TC_E_TempToMV_len)
      else if type = TC_TYPE_K then (None, 0)
      else if type = TC_TYPE_N then (Some TC_N_TempToMV, TC_N_TempToMV_len)
      else (None, 0))"

text \<open>
  The type-K case chooses \<open>pCoeff\<close> and \<open>length\<close> by two comparisons; both keep their
  initial values \<^verbatim>\<open>NULL\<close> and \<open>0\<close> in the last branch, which only assigns
  \<open>voltage = TC_CONVERSION_FAILED\<close>.
\<close>

definition TC_K_TempToMV_select :: "real \<Rightarrow> real list option \<times> nat" where
  "TC_K_TempToMV_select temperature =
     (if temperature \<ge> - 270.5 \<and> temperature \<le> 0
      then (Some TC_Coeff_K_TempToMV_Range1, length TC_Coeff_K_TempToMV_Range1)
      else if temperature > 0 \<and> temperature \<le> 1372.5
      then (Some TC_Coeff_K_TempToMV_Range2, length TC_Coeff_K_TempToMV_Range2)
      else (None, 0))"

text \<open>
  \<^verbatim>\<open>correction = A0 * exp(A1 * pow((temperature - A2), 2.0))\<close>
\<close>

definition TC_K_correction :: "real \<Rightarrow> real" where
  "TC_K_correction temperature =
     TC_Coeff_K_TempToMV_A0
       * exp (TC_Coeff_K_TempToMV_A1 * (temperature - TC_Coeff_K_TempToMV_A2) ^ 2)"

text \<open>
  The value of \<open>voltage\<close> right after the statement
  \<^verbatim>\<open>voltage = Polynomial_Evaluate(pCoeff, length, temperature);\<close> of the type-K case.
  The call follows the three branches and overwrites \<open>voltage\<close> whichever branch ran; the
  \<^verbatim>\<open>size_t\<close> length is converted to the \<^verbatim>\<open>uint8_t\<close> parameter.
\<close>

definition TC_K_Polynomial_Evaluate :: "real \<Rightarrow> fault + real" where
  "TC_K_Polynomial_Evaluate temperature =
     (let (pCoeff, len) = TC_K_TempToMV_select temperature
      in Polynomial_Evaluate pCoeff (of_nat len) temperature)"

text \<open>
  The whole type-K case: the call, then the correction when \<open>temperature > 0.0\<close>.
\<close>

definition TC_CalculateVoltage_K :: "real \<Rightarrow> call list \<times> (fault + real)" where
  "TC_CalculateVoltage_K temperature =
     (case TC_K_Polynomial_Evaluate temperature of
        Inl e \<Rightarrow> ([Call_Polynomial_Evaluate], Inl e)
      | Inr voltage \<Rightarrow>
          ([Call_Polynomial_Evaluate],
           Inr (if temperature > 0 then voltage + TC_K_correction temperature else voltage)))"

text \<open>
  The function: \<open>voltage\<close> starts as \<^verbatim>\<open>TC_CONVERSION_FAILED\<close>, only the type-K case
  assigns it inside the \<^verbatim>\<open>switch\<close>, and the lookup after the \<^verbatim>\<open>switch\<close> runs when
  \<open>ranges\<close> is not \<^verbatim>\<open>NULL\<close>.
\<close>

definition TC_CalculateVoltage_run ::
  "ThermocoupleType \<Rightarrow> real \<Rightarrow> call list \<times> (fault + real)" where
  "TC_CalculateVoltage_run type temperature =
     (let (calls, switched) =
            (if type = TC_TYPE_K then TC_CalculateVoltage_K temperature
             else ([], Inr TC_CONVERSION_FAILED));
          (ranges, ranges_len) = TC_CalculateVoltage_switch type
      in case switched of
           Inl e \<Rightarrow> (calls, Inl e)
         | Inr voltage \<Rightarrow>
             (case ranges of
                None \<Rightarrow> (calls, Inr voltage)
              | Some rs \<Rightarrow>
                  (case FindPolyCoeff rs ranges_len temperature of
                     Inl e \<Rightarrow> (calls @ [Call_FindPolyCoeff], Inl e)
                   | Inr None \<Rightarrow> (calls @ [Call_FindPolyCoeff], Inr voltage)
                   | Inr (Some p) \<Rightarrow>
                       (calls @ [Call_FindPolyCoeff, Call_Polynomial_Evaluate],
                        Polynomial_Evaluate (pCoefficients p) (length_u8 p) temperature))))"

definition TC_CalculateVoltage :: "ThermocoupleType \<Rightarrow> real \<Rightarrow> fault + real" where
  "TC_CalculateVoltage type temperature = snd (TC_CalculateVoltage_run type temperature)"

section \<open>Notions of the specification\<close>

text \<open>The eight enumerators.\<close>

definition TC_valid_types :: "ThermocoupleType set" where
  "TC_valid_types =
     {TC_TYPE_R, TC_TYPE_S, TC_TYPE_B, TC_TYPE_J, TC_TYPE_T, TC_TYPE_E, TC_TYPE_K, TC_TYPE_N}"

text \<open>A probe lies in the closed interval of a range entry, both ends included.\<close>

definition in_range :: "real \<Rightarrow> RangePoly \<Rightarrow> bool" where
  "in_range v r \<longleftrightarrow> min_bound r \<le> v \<and> v \<le> max_bound r"

text \<open>
  The recurrence of the specification: \<open>result = 0\<close>, then
  \<open>result = result * x + c[i]\<close> for \<open>i\<close> from \<open>n - 1\<close> down to \<open>0\<close>.
\<close>

fun Horner_from :: "real list \<Rightarrow> real \<Rightarrow> nat \<Rightarrow> real \<Rightarrow> real" where
  "Horner_from c x 0 result = result"
| "Horner_from c x (Suc i) result = Horner_from c x i (result * x + c ! i)"

definition Horner :: "real list \<Rightarrow> real \<Rightarrow> real" where
  "Horner c x = Horner_from c x (length c) 0"

text \<open>The polynomial \<open>c[0] + c[1] * x + ... + c[n-1] * x^(n-1)\<close>.\<close>

definition Polynomial_sum :: "real list \<Rightarrow> real \<Rightarrow> real" where
  "Polynomial_sum c x = (\<Sum>i<length c. c ! i * x ^ i)"

text \<open>
  The supported domains of section 6 of the specification, as pairs of a lower and an
  upper end: voltage in mV, temperature in degrees Celsius.
\<close>

definition spec_voltage_domain :: "ThermocoupleType \<Rightarrow> real \<times> real" where
  "spec_voltage_domain type =
     (if type = TC_TYPE_R then (- 0.228, 21.105)
      else if type = TC_TYPE_S then (- 0.237, 18.697)
      else if type = TC_TYPE_B then (0.292, 13.825)
      else if type = TC_TYPE_J then (- 8.1, 69.58)
      else if type = TC_TYPE_T then (- 5.61, 20.88)
      else if type = TC_TYPE_E then (- 8.84, 76.38)
      else if type = TC_TYPE_K then (- 5.895, 52.425)
      else (- 4, 47.52))"

definition spec_temperature_domain :: "ThermocoupleType \<Rightarrow> real \<times> real" where
  "spec_temperature_domain type =
     (if type = TC_TYPE_R then (- 50.5, 1768.5)
      else if type = TC_TYPE_S then (- 50.5, 1768.5)
      else if type = TC_TYPE_B then (- 0.5, 1820.5)
      else if type = TC_TYPE_J then (- 210.5, 1200.5)
      else if type = TC_TYPE_T then (- 270.5, 400.5)
      else if type = TC_TYPE_E then (- 270.5, 1000.5)
      else if type = TC_TYPE_K then (- 270.5, 1372.5)
      else (- 270.5, 1300.5))"

text \<open>
  The entries of a table touch: the upper bound of each entry is the lower bound of the
  next one.
\<close>

fun contiguous :: "RangePoly list \<Rightarrow> bool" where
  "contiguous (a # b # rs) \<longleftrightarrow> max_bound a = min_bound b \<and> contiguous (b # rs)"
| "contiguous rs \<longleftrightarrow> True"

text \<open>The set of probes that some entry of a table accepts.\<close>

definition covered :: "RangePoly list \<Rightarrow> real set" where
  "covered rs = (\<Union>r \<in> set rs. {min_bound r .. max_bound r})"

text \<open>
  No two entries of a table overlap: an earlier entry ends where a later one begins or
  before, and every entry has a lower bound below its upper bound.
\<close>

definition non_overlapping :: "RangePoly list \<Rightarrow> bool" where
  "non_overlapping rs \<longleftrightarrow>
     sorted_wrt (\<lambda>a b. max_bound a \<le> min_bound b) rs \<and> list_all (\<lambda>r. min_bound r < max_bound r) rs"

text \<open>
  An entry as the initialisers of the source make it: the pointer is not \<^verbatim>\<open>NULL\<close>, the
  \<open>length\<close> field is the number of elements of the array, and that number is between
  1 and 128.
\<close>

definition wf_entry :: "RangePoly \<Rightarrow> bool" where
  "wf_entry r =
     (case pCoefficients (poly r) of
        None \<Rightarrow> False
      | Some cs \<Rightarrow> length_u8 (poly r) = of_nat (length cs) \<and> 1 \<le> length cs \<and> length cs \<le> 128)"

text \<open>The fifteen tables of the source.\<close>

definition TC_tables :: "RangePoly list list" where
  "TC_tables =
     [TC_R_mVToTemp, TC_R_TempToMV, TC_S_mVToTemp, TC_S_TempToMV, TC_B_mVToTemp, TC_B_TempToMV,
      TC_J_mVToTemp, TC_J_TempToMV, TC_T_mVToTemp, TC_T_TempToMV, TC_E_mVToTemp, TC_E_TempToMV,
      TC_K_mVToTemp, TC_N_mVToTemp, TC_N_TempToMV]"

text \<open>
  A computable test that the polynomial of an entry stays above the failure sentinel on
  the whole interval of the entry. On an interval of non-negative values the polynomial is
  at least the sum of its negative terms at the upper bound; on any interval its absolute
  value is at most the sum of the absolute values of its terms at the larger bound.
\<close>

definition entry_above_sentinel :: "RangePoly \<Rightarrow> bool" where
  "entry_above_sentinel r =
     (case pCoefficients (poly r) of
        None \<Rightarrow> False
      | Some cs \<Rightarrow>
          if 0 \<le> min_bound r
          then TC_CONVERSION_FAILED < Horner (map (min 0) cs) (max_bound r)
          else Horner (map abs cs) (max \<bar>min_bound r\<bar> \<bar>max_bound r\<bar>) < - TC_CONVERSION_FAILED)"






section \<open>Range selection and polynomial evaluation\<close>

lemma FindPolyCoeff_loop_find:
  "i \<le> length rs \<Longrightarrow>
   FindPolyCoeff_loop rs (length rs) v i
     = Inr (map_option poly (find (in_range v) (drop i rs)))"
proof (induction rs "length rs" v i rule: FindPolyCoeff_loop.induct)
  case (1 ranges v i)
  show ?case
  proof (cases "i < length ranges")
    case True
    then have d: "drop i ranges = ranges ! i # drop (Suc i) ranges"
      by (simp add: Cons_nth_drop_Suc)
    show ?thesis
    proof (cases "in_range v (ranges ! i)")
      case True
      with \<open>i < length ranges\<close> d show ?thesis
        by (subst FindPolyCoeff_loop.simps) (simp add: in_range_def)
    next
      case False
      with \<open>i < length ranges\<close>
      have "FindPolyCoeff_loop ranges (length ranges) v (Suc i)
              = Inr (map_option poly (find (in_range v) (drop (Suc i) ranges)))"
        using "1.hyps" by (simp add: in_range_def)
      with False \<open>i < length ranges\<close> d show ?thesis
        by (subst FindPolyCoeff_loop.simps) (auto simp: in_range_def)
    qed
  next
    case False
    with "1.prems" show ?thesis
      by (subst FindPolyCoeff_loop.simps) simp
  qed
qed

lemma FindPolyCoeff_find:
  "FindPolyCoeff rs (length rs) v = Inr (map_option poly (find (in_range v) rs))"
  using FindPolyCoeff_loop_find [of 0 rs v] by (simp add: FindPolyCoeff_def)

lemma sint_of_nat_small: "k < 128 \<Longrightarrow> sint (of_nat k :: 8 word) = int k"
  by (simp add: signed_of_nat signed_take_bit_int_eq_self)

lemma unat_of_nat_small: "k < 128 \<Longrightarrow> unat (of_nat k :: 8 word) = k"
  by (simp add: unat_of_nat)

lemma Polynomial_Evaluate_loop_Horner:
  "k < length cs \<Longrightarrow> k < 128 \<Longrightarrow>
   Polynomial_Evaluate_loop (Some cs) x (of_nat k) r = Inr (Horner_from cs x (Suc k) r)"
proof (induction k arbitrary: r)
  case 0
  then show ?case
    by (subst Polynomial_Evaluate_loop.simps, subst Polynomial_Evaluate_loop.simps) simp
next
  case (Suc k)
  have s: "sint (of_nat (Suc k) :: 8 word) = int (Suc k)"
    using Suc.prems by (intro sint_of_nat_small) simp
  have u: "unat (of_nat (Suc k) :: 8 word) = Suc k"
    using Suc.prems by (intro unat_of_nat_small) simp
  have m: "(of_nat (Suc k) :: 8 word) - 1 = of_nat k"
    by simp
  have "Polynomial_Evaluate_loop (Some cs) x (of_nat (Suc k)) r
          = Polynomial_Evaluate_loop (Some cs) x (of_nat k) (r * x + cs ! Suc k)"
    using Suc.prems s u m by (subst Polynomial_Evaluate_loop.simps) (simp del: of_nat_Suc)
  also have "\<dots> = Inr (Horner_from cs x (Suc k) (r * x + cs ! Suc k))"
    using Suc by simp
  finally show ?case by simp
qed

lemma Polynomial_Evaluate_Horner:
  assumes "1 \<le> length cs" and "length cs \<le> 128"
  shows "Polynomial_Evaluate (Some cs) (of_nat (length cs)) x = Inr (Horner cs x)"
proof -
  obtain k where k: "length cs = Suc k"
    using assms(1) by (cases "length cs") simp_all
  have "(of_nat (length cs) :: 8 word) - 1 = of_nat k"
    by (simp add: k)
  moreover have "Polynomial_Evaluate_loop (Some cs) x (of_nat k) 0 = Inr (Horner_from cs x (Suc k) 0)"
    using assms(2) k by (intro Polynomial_Evaluate_loop_Horner) simp_all
  ultimately show ?thesis
    by (simp add: Polynomial_Evaluate_def Horner_def k del: of_nat_Suc)
qed

lemma Polynomial_Evaluate_length_0: "Polynomial_Evaluate p 0 x = Inr 0"
  by (simp add: Polynomial_Evaluate_def Polynomial_Evaluate_loop.simps)

lemma Horner_from_sum:
  "Horner_from c x k r = r * x ^ k + (\<Sum>i<k. c ! i * x ^ i)"
  by (induction k arbitrary: r) (simp_all add: algebra_simps)

lemma Horner_Polynomial_sum: "Horner c x = Polynomial_sum c x"
  by (simp add: Horner_def Polynomial_sum_def Horner_from_sum)

lemma Horner_Nil: "Horner [] x = 0"
  by (simp add: Horner_def)

lemma Horner_Cons: "Horner (a # c) x = a + x * Horner c x"
proof -
  have "Polynomial_sum (a # c) x = a + x * Polynomial_sum c x"
    by (simp add: Polynomial_sum_def sum.lessThan_Suc_shift sum_distrib_left mult_ac del: sum.lessThan_Suc)
  then show ?thesis by (simp add: Horner_Polynomial_sum)
qed

lemma Horner_at_0: "c \<noteq> [] \<Longrightarrow> Horner c 0 = c ! 0"
  by (cases c) (simp_all add: Horner_Cons)

section \<open>The tables\<close>

lemmas TC_mVToTemp_defs =
  TC_R_mVToTemp_def TC_S_mVToTemp_def TC_B_mVToTemp_def TC_J_mVToTemp_def
  TC_T_mVToTemp_def TC_E_mVToTemp_def TC_K_mVToTemp_def TC_N_mVToTemp_def

lemmas TC_TempToMV_defs =
  TC_R_TempToMV_def TC_S_TempToMV_def TC_B_TempToMV_def TC_J_TempToMV_def
  TC_T_TempToMV_def TC_E_TempToMV_def TC_N_TempToMV_def

lemmas TC_len_defs =
  TC_R_mVToTemp_len_def TC_S_mVToTemp_len_def TC_B_mVToTemp_len_def TC_J_mVToTemp_len_def
  TC_T_mVToTemp_len_def TC_E_mVToTemp_len_def TC_K_mVToTemp_len_def TC_N_mVToTemp_len_def
  TC_R_TempToMV_len_def TC_S_TempToMV_len_def TC_B_TempToMV_len_def TC_J_TempToMV_len_def
  TC_T_TempToMV_len_def TC_E_TempToMV_len_def TC_N_TempToMV_len_def

lemmas TC_TYPE_defs =
  TC_TYPE_R_def TC_TYPE_S_def TC_TYPE_B_def TC_TYPE_J_def
  TC_TYPE_T_def TC_TYPE_E_def TC_TYPE_K_def TC_TYPE_N_def

lemmas TC_Coeff_mVToTemp_defs =
  TC_Coeff_R_mVToTemp_Range1_def TC_Coeff_R_mVToTemp_Range2_def
  TC_Coeff_R_mVToTemp_Range3_def TC_Coeff_R_mVToTemp_Range4_def
  TC_Coeff_S_mVToTemp_Range1_def TC_Coeff_S_mVToTemp_Range2_def
  TC_Coeff_S_mVToTemp_Range3_def TC_Coeff_S_mVToTemp_Range4_def
  TC_Coeff_B_mVToTemp_Range1_def TC_Coeff_B_mVToTemp_Range2_def
  TC_Coeff_J_mVToTemp_Range1_def TC_Coeff_J_mVToTemp_Range2_def TC_Coeff_J_mVToTemp_Range3_def
  TC_Coeff_T_mVToTemp_Range1_def TC_Coeff_T_mVToTemp_Range2_def
  TC_Coeff_E_mVToTemp_Range1_def TC_Coeff_E_mVToTemp_Range2_def
  TC_Coeff_K_mVToTemp_Range1_def TC_Coeff_K_mVToTemp_Range2_def TC_Coeff_K_mVToTemp_Range3_def
  TC_Coeff_N_mVToTemp_Range1_def TC_Coeff_N_mVToTemp_Range2_def TC_Coeff_N_mVToTemp_Range3_def

lemmas TC_Coeff_TempToMV_defs =
  TC_Coeff_R_TempToMV_Range1_def TC_Coeff_R_TempToMV_Range2_def TC_Coeff_R_TempToMV_Range3_def
  TC_Coeff_S_TempToMV_Range1_def TC_Coeff_S_TempToMV_Range2_def TC_Coeff_S_TempToMV_Range3_def
  TC_Coeff_B_TempToMV_Range1_def TC_Coeff_B_TempToMV_Range2_def
  TC_Coeff_J_TempToMV_Range1_def TC_Coeff_J_TempToMV_Range2_def
  TC_Coeff_T_TempToMV_Range1_def TC_Coeff_T_TempToMV_Range2_def
  TC_Coeff_E_TempToMV_Range1_def TC_Coeff_E_TempToMV_Range2_def
  TC_Coeff_K_TempToMV_Range1_def TC_Coeff_K_TempToMV_Range2_def
  TC_Coeff_N_TempToMV_Range1_def TC_Coeff_N_TempToMV_Range2_def

lemma wf_mVToTemp:
  "list_all wf_entry TC_R_mVToTemp" "list_all wf_entry TC_S_mVToTemp"
  "list_all wf_entry TC_B_mVToTemp" "list_all wf_entry TC_J_mVToTemp"
  "list_all wf_entry TC_T_mVToTemp" "list_all wf_entry TC_E_mVToTemp"
  "list_all wf_entry TC_K_mVToTemp" "list_all wf_entry TC_N_mVToTemp"
  by (simp_all add: wf_entry_def TC_mVToTemp_defs TC_Coeff_mVToTemp_defs)

lemma wf_TempToMV:
  "list_all wf_entry TC_R_TempToMV" "list_all wf_entry TC_S_TempToMV"
  "list_all wf_entry TC_B_TempToMV" "list_all wf_entry TC_J_TempToMV"
  "list_all wf_entry TC_T_TempToMV" "list_all wf_entry TC_E_TempToMV"
  "list_all wf_entry TC_N_TempToMV"
  by (simp_all add: wf_entry_def TC_TempToMV_defs TC_Coeff_TempToMV_defs)

lemma covered_mVToTemp:
  "covered TC_R_mVToTemp = {- 0.228 .. 21.105}"
  "covered TC_S_mVToTemp = {- 0.237 .. 18.697}"
  "covered TC_B_mVToTemp = {0.292 .. 13.825}"
  "covered TC_J_mVToTemp = {- 8.1 .. 69.58}"
  "covered TC_T_mVToTemp = {- 5.61 .. 20.88}"
  "covered TC_E_mVToTemp = {- 8.84 .. 76.38}"
  "covered TC_K_mVToTemp = {- 5.895 .. 52.425}"
  "covered TC_N_mVToTemp = {- 4 .. 47.52}"
  by (auto simp: covered_def TC_mVToTemp_defs)

lemma covered_TempToMV:
  "covered TC_R_TempToMV = {- 50.5 .. 1768.5}"
  "covered TC_S_TempToMV = {- 50.5 .. 1768.5}"
  "covered TC_B_TempToMV = {- 0.5 .. 1820.5}"
  "covered TC_J_TempToMV = {- 210.5 .. 1200.5}"
  "covered TC_T_TempToMV = {- 270.5 .. 400.5}"
  "covered TC_E_TempToMV = {- 270.5 .. 1000.5}"
  "covered TC_N_TempToMV = {- 270.5 .. 1300.5}"
  by (auto simp: covered_def TC_TempToMV_defs)

lemma contiguous_tables: "list_all contiguous TC_tables"
  by (simp add: TC_tables_def TC_mVToTemp_defs TC_TempToMV_defs)

section \<open>The dispatchers\<close>

lemma wf_entry_Polynomial_Evaluate:
  assumes "wf_entry r"
  shows "\<exists>cs. pCoefficients (poly r) = Some cs \<and>
           Polynomial_Evaluate (pCoefficients (poly r)) (length_u8 (poly r)) x = Inr (Horner cs x)"
proof -
  from assms obtain cs where cs: "pCoefficients (poly r) = Some cs"
    and len: "length_u8 (poly r) = of_nat (length cs)" "1 \<le> length cs" "length cs \<le> 128"
    by (auto simp: wf_entry_def split: option.splits)
  show ?thesis
    using Polynomial_Evaluate_Horner [OF len(2,3)] by (simp add: cs len(1))
qed

lemma find_in_set: "find P xs = Some x \<Longrightarrow> x \<in> set xs \<and> P x"
  by (auto simp: find_Some_iff)

lemma find_None_covered: "find (in_range v) rs = None \<longleftrightarrow> v \<notin> covered rs"
  by (auto simp: find_None_iff covered_def in_range_def)

lemma lookup_table:
  assumes "list_all wf_entry rs"
  shows "(case FindPolyCoeff rs (length rs) v of
            Inl e \<Rightarrow> (c1, Inl e)
          | Inr None \<Rightarrow> (c2, Inr d)
          | Inr (Some p) \<Rightarrow> (c3, Polynomial_Evaluate (pCoefficients p) (length_u8 p) v))
       = (case find (in_range v) rs of
            None \<Rightarrow> (c2, Inr d)
          | Some r \<Rightarrow> (c3, Inr (Horner (the (pCoefficients (poly r))) v)))"
proof (cases "find (in_range v) rs")
  case None
  then show ?thesis by (simp add: FindPolyCoeff_find)
next
  case (Some r)
  then have "wf_entry r"
    using assms find_in_set [of "in_range v" rs r] by (simp add: list_all_iff)
  from wf_entry_Polynomial_Evaluate [OF this, of v] Some show ?thesis
    by (auto simp: FindPolyCoeff_find)
qed

lemma TC_CalculateTemperature_run_table:
  assumes "TC_CalculateTemperature_switch type = (Some rs, length rs)" and "list_all wf_entry rs"
  shows "TC_CalculateTemperature_run type v =
           (case find (in_range v) rs of
              None \<Rightarrow> ([Call_FindPolyCoeff], Inr TC_CONVERSION_FAILED)
            | Some r \<Rightarrow> ([Call_FindPolyCoeff, Call_Polynomial_Evaluate],
                         Inr (Horner (the (pCoefficients (poly r))) v)))"
  using lookup_table [OF assms(2)] by (simp add: TC_CalculateTemperature_run_def assms(1))

lemma TC_CalculateVoltage_run_table:
  assumes "type \<noteq> TC_TYPE_K"
    and "TC_CalculateVoltage_switch type = (Some rs, length rs)" and "list_all wf_entry rs"
  shows "TC_CalculateVoltage_run type t =
           (case find (in_range t) rs of
              None \<Rightarrow> ([Call_FindPolyCoeff], Inr TC_CONVERSION_FAILED)
            | Some r \<Rightarrow> ([Call_FindPolyCoeff, Call_Polynomial_Evaluate],
                         Inr (Horner (the (pCoefficients (poly r))) t)))"
  by (simp add: TC_CalculateVoltage_run_def assms(1,2) lookup_table [OF assms(3)]
      split: option.splits)

lemma TC_CalculateVoltage_run_K:
  "TC_CalculateVoltage_run TC_TYPE_K t = TC_CalculateVoltage_K t"
  by (simp add: TC_CalculateVoltage_run_def TC_CalculateVoltage_switch_def TC_TYPE_defs
      split: prod.splits sum.splits)

lemma TC_CalculateTemperature_switch_valid:
  assumes "type \<in> TC_valid_types"
  shows "\<exists>rs. TC_CalculateTemperature_switch type = (Some rs, length rs) \<and> list_all wf_entry rs \<and>
           contiguous rs \<and> non_overlapping rs \<and>
           covered rs = {fst (spec_voltage_domain type) .. snd (spec_voltage_domain type)}"
proof -
  have c: "list_all contiguous TC_tables" by (rule contiguous_tables)
  have n: "list_all non_overlapping TC_tables" 
    by (simp add: TC_tables_def non_overlapping_def TC_mVToTemp_defs TC_TempToMV_defs)
  from assms consider "type = TC_TYPE_R" | "type = TC_TYPE_S" | "type = TC_TYPE_B"
    | "type = TC_TYPE_J" | "type = TC_TYPE_T" | "type = TC_TYPE_E" | "type = TC_TYPE_K"
    | "type = TC_TYPE_N"
    by (auto simp: TC_valid_types_def)
  then show ?thesis
    using c n
    by cases
     (simp_all add: TC_CalculateTemperature_switch_def spec_voltage_domain_def TC_TYPE_defs
        TC_len_defs wf_mVToTemp covered_mVToTemp TC_tables_def)
qed

lemma TC_CalculateVoltage_switch_valid:
  assumes "type \<in> TC_valid_types" and "type \<noteq> TC_TYPE_K"
  shows "\<exists>rs. TC_CalculateVoltage_switch type = (Some rs, length rs) \<and> list_all wf_entry rs \<and>
           contiguous rs \<and> non_overlapping rs \<and>
           covered rs = {fst (spec_temperature_domain type) .. snd (spec_temperature_domain type)}"
proof -
  have c: "list_all contiguous TC_tables" by (rule contiguous_tables)
  have n: "list_all non_overlapping TC_tables" 
    by (simp add: TC_tables_def non_overlapping_def TC_mVToTemp_defs TC_TempToMV_defs)
  from assms consider "type = TC_TYPE_R" | "type = TC_TYPE_S" | "type = TC_TYPE_B"
    | "type = TC_TYPE_J" | "type = TC_TYPE_T" | "type = TC_TYPE_E" 
    | "type = TC_TYPE_N"
    by (auto simp: TC_valid_types_def)
  then show ?thesis
    using c n
    by cases
     (simp_all add: TC_CalculateVoltage_switch_def spec_temperature_domain_def TC_TYPE_defs
        TC_len_defs wf_TempToMV covered_TempToMV TC_tables_def)
qed

lemma switch_Some_valid:
  "fst (TC_CalculateTemperature_switch type) = Some rs \<Longrightarrow> type \<in> TC_valid_types"
  "fst (TC_CalculateVoltage_switch type) = Some rs \<Longrightarrow> type \<in> TC_valid_types \<and> type \<noteq> TC_TYPE_K"
  by (auto simp: TC_CalculateTemperature_switch_def TC_CalculateVoltage_switch_def
      TC_valid_types_def TC_TYPE_defs split: if_splits)

lemma find_append_None: "find P xs = None \<Longrightarrow> find P (xs @ ys) = find P ys"
  by (induction xs) (auto split: if_splits)

lemma TC_K_Polynomial_Evaluate_Range1:
  assumes "- 270.5 \<le> t" and "t \<le> 0"
  shows "TC_K_Polynomial_Evaluate t = Inr (Horner TC_Coeff_K_TempToMV_Range1 t)"
proof -
  have "1 \<le> length TC_Coeff_K_TempToMV_Range1" "length TC_Coeff_K_TempToMV_Range1 \<le> 128"
    by (simp_all add: TC_Coeff_K_TempToMV_Range1_def)
  from Polynomial_Evaluate_Horner [OF this] assms show ?thesis
    by (simp add: TC_K_Polynomial_Evaluate_def TC_K_TempToMV_select_def)
qed

lemma TC_K_Polynomial_Evaluate_Range2:
  assumes "0 < t" and "t \<le> 1372.5"
  shows "TC_K_Polynomial_Evaluate t = Inr (Horner TC_Coeff_K_TempToMV_Range2 t)"
proof -
  have "1 \<le> length TC_Coeff_K_TempToMV_Range2" "length TC_Coeff_K_TempToMV_Range2 \<le> 128"
    by (simp_all add: TC_Coeff_K_TempToMV_Range2_def)
  from Polynomial_Evaluate_Horner [OF this] assms show ?thesis
    by (simp add: TC_K_Polynomial_Evaluate_def TC_K_TempToMV_select_def)
qed

lemma TC_K_Polynomial_Evaluate_outside:
  assumes "t < - 270.5 \<or> 1372.5 < t"
  shows "TC_K_TempToMV_select t = (None, 0)" and "TC_K_Polynomial_Evaluate t = Inr 0"
  using assms
  by (auto simp: TC_K_Polynomial_Evaluate_def TC_K_TempToMV_select_def
      Polynomial_Evaluate_length_0)

lemma TC_CalculateVoltage_K:
  "TC_CalculateVoltage TC_TYPE_K t = snd (TC_CalculateVoltage_K t)"
  by (simp add: TC_CalculateVoltage_def TC_CalculateVoltage_run_K)

lemma TC_K_correction_pos: "0 < TC_K_correction t"
  by (simp add: TC_K_correction_def TC_Coeff_K_TempToMV_A0_def)

lemma TC_CalculateVoltage_outside_domain:
  assumes "type \<in> TC_valid_types" and "type \<noteq> TC_TYPE_K"
    and "t < fst (spec_temperature_domain type) \<or> snd (spec_temperature_domain type) < t"
  shows "TC_CalculateVoltage type t = Inr TC_CONVERSION_FAILED"
proof -
  from TC_CalculateVoltage_switch_valid [OF assms(1,2)]
  obtain rs where r: "TC_CalculateVoltage_switch type = (Some rs, length rs)"
    and w: "list_all wf_entry rs"
    and c: "covered rs = {fst (spec_temperature_domain type) .. snd (spec_temperature_domain type)}"
    by (elim exE conjE) (rule that)
  from assms(3) c have "find (in_range t) rs = None"
    by (auto simp: find_None_covered)
  then show ?thesis
    by (simp add: TC_CalculateVoltage_def TC_CalculateVoltage_run_table [OF assms(2) r w])
qed

lemma wf_entry_coefficients:
  "wf_entry r \<Longrightarrow> \<exists>cs. pCoefficients (poly r) = Some cs \<and> cs \<noteq> []"
  by (auto simp: wf_entry_def split: option.splits)

lemma find_wf_entry:
  assumes "list_all wf_entry rs" and "find (in_range v) rs = Some r"
  shows "wf_entry r"
  using assms find_in_set [of "in_range v" rs r] by (simp add: list_all_iff)

lemma Horner_abs_bound:
  assumes "\<bar>x\<bar> \<le> M"
  shows "\<bar>Horner cs x\<bar> \<le> Horner (map abs cs) M"
proof (induction cs)
  case Nil
  show ?case by (simp add: Horner_Nil)
next
  case (Cons a cs)
  have "\<bar>a + x * Horner cs x\<bar> \<le> \<bar>a\<bar> + \<bar>x\<bar> * \<bar>Horner cs x\<bar>"
    by (metis abs_mult abs_triangle_ineq)
  also have "\<bar>x\<bar> * \<bar>Horner cs x\<bar> \<le> M * Horner (map abs cs) M"
    using assms Cons.IH by (intro mult_mono) auto
  finally show ?case
    by (simp add: Horner_Cons)
qed

lemma Horner_negative_part:
  assumes "0 \<le> x" and "x \<le> M"
  shows "Horner (map (min 0) cs) M \<le> Horner cs x \<and> Horner (map (min 0) cs) M \<le> 0"
proof (induction cs)
  case Nil
  show ?case by (simp add: Horner_Nil)
next
  case (Cons a cs)
  let ?L = "Horner (map (min 0) cs) M"
  from Cons.IH have l: "?L \<le> Horner cs x" "?L \<le> 0"
    by simp_all
  have "M * ?L \<le> x * ?L"
    using assms l(2) by (intro mult_right_mono_neg) simp_all
  also have "x * ?L \<le> x * Horner cs x"
    using assms l(1) by (intro mult_left_mono) simp_all
  finally have 1: "M * ?L \<le> x * Horner cs x" .
  have 2: "M * ?L \<le> 0"
    using assms l(2) by (intro mult_nonneg_nonpos) simp_all
  have 3: "min 0 a \<le> a" "min 0 a \<le> 0"
    by simp_all
  from 1 2 3 show ?case
    unfolding list.map Horner_Cons by linarith
qed

lemma entry_above_sentinel:
  assumes "entry_above_sentinel r" and "in_range v r" and "pCoefficients (poly r) = Some cs"
  shows "TC_CONVERSION_FAILED < Horner cs v"
proof (cases "0 \<le> min_bound r")
  case True
  with assms have "0 \<le> v" "v \<le> max_bound r"
    and "TC_CONVERSION_FAILED < Horner (map (min 0) cs) (max_bound r)"
    by (simp_all add: in_range_def entry_above_sentinel_def)
  with Horner_negative_part [of v "max_bound r" cs] show ?thesis
    by simp
next
  case False
  with assms have "\<bar>v\<bar> \<le> max \<bar>min_bound r\<bar> \<bar>max_bound r\<bar>"
    and "Horner (map abs cs) (max \<bar>min_bound r\<bar> \<bar>max_bound r\<bar>) < - TC_CONVERSION_FAILED"
    by (auto simp: in_range_def entry_above_sentinel_def)
  with Horner_abs_bound [of v "max \<bar>min_bound r\<bar> \<bar>max_bound r\<bar>" cs] show ?thesis
    by linarith
qed

lemmas above_simps =
  entry_above_sentinel_def TC_CONVERSION_FAILED_def Horner_Cons Horner_Nil

lemma above_mVToTemp:
  "list_all entry_above_sentinel TC_R_mVToTemp" "list_all entry_above_sentinel TC_S_mVToTemp"
  "list_all entry_above_sentinel TC_B_mVToTemp" "list_all entry_above_sentinel TC_J_mVToTemp"
  "list_all entry_above_sentinel TC_T_mVToTemp" "list_all entry_above_sentinel TC_E_mVToTemp"
  "list_all entry_above_sentinel TC_K_mVToTemp" "list_all entry_above_sentinel TC_N_mVToTemp"
  by (simp_all add: above_simps TC_mVToTemp_defs TC_Coeff_mVToTemp_defs)

lemma TC_CalculateTemperature_switch_above:
  assumes "TC_CalculateTemperature_switch type = (Some rs, n)"
  shows "list_all entry_above_sentinel rs"
  using assms
  by (auto simp: TC_CalculateTemperature_switch_def above_mVToTemp split: if_splits)

lemma TC_CalculateTemperature_inside:
  assumes "type \<in> TC_valid_types"
    and "fst (spec_voltage_domain type) \<le> v" and "v \<le> snd (spec_voltage_domain type)"
  shows "\<exists>rs r cs. fst (TC_CalculateTemperature_switch type) = Some rs \<and>
           find (in_range v) rs = Some r \<and> pCoefficients (poly r) = Some cs \<and>
           TC_CalculateTemperature type v = Inr (Polynomial_sum cs v) \<and>
           Polynomial_sum cs v \<noteq> TC_CONVERSION_FAILED"
proof -
  from TC_CalculateTemperature_switch_valid [OF assms(1)]
  obtain rs where r: "TC_CalculateTemperature_switch type = (Some rs, length rs)"
    and w: "list_all wf_entry rs"
    and c: "covered rs = {fst (spec_voltage_domain type) .. snd (spec_voltage_domain type)}"
    by (elim exE conjE) (rule that)
  from assms(2,3) c have "v \<in> covered rs"
    by simp
  then obtain e where e: "find (in_range v) rs = Some e"
    using find_None_covered [of v rs] by (cases "find (in_range v) rs") simp_all
  from wf_entry_coefficients [OF find_wf_entry [OF w e]]
  obtain cs where cs: "pCoefficients (poly e) = Some cs"
    by blast
  from TC_CalculateTemperature_run_table [OF r w, of v] e cs
  have "TC_CalculateTemperature type v = Inr (Polynomial_sum cs v)"
    by (simp add: TC_CalculateTemperature_def Horner_Polynomial_sum)
  moreover from find_in_set [OF e] TC_CalculateTemperature_switch_above [OF r]
  have "entry_above_sentinel e" and "in_range v e"
    by (simp_all add: list_all_iff)
  from entry_above_sentinel [OF this cs] have "Polynomial_sum cs v \<noteq> TC_CONVERSION_FAILED"
    by (simp add: Horner_Polynomial_sum)
  ultimately show ?thesis
    using e cs r by (intro exI [of _ rs] exI [of _ e] exI [of _ cs]) simp
qed

lemma TC_CalculateTemperature_outside:
  assumes "type \<in> TC_valid_types"
    and "v < fst (spec_voltage_domain type) \<or> snd (spec_voltage_domain type) < v"
  shows "TC_CalculateTemperature type v = Inr TC_CONVERSION_FAILED"
proof -
  from TC_CalculateTemperature_switch_valid [OF assms(1)]
  obtain rs where r: "TC_CalculateTemperature_switch type = (Some rs, length rs)"
    and w: "list_all wf_entry rs"
    and c: "covered rs = {fst (spec_voltage_domain type) .. snd (spec_voltage_domain type)}"
    by (elim exE conjE) (rule that)
  from assms(2) c have "find (in_range v) rs = None"
    by (auto simp: find_None_covered)
  with TC_CalculateTemperature_run_table [OF r w, of v] show ?thesis
    by (simp add: TC_CalculateTemperature_def)
qed

section \<open>The round trip\<close>
























section \<open>The claims\<close>

subsection \<open>C1: out-of-domain temperatures\<close>

text \<open>
  Claim C1. For type K the temperature \<open>-300\<close> lies below the domain and \<open>1400\<close> above
  it, and the conversion returns \<open>0\<close> for the first and the positive correction term for
  the second, not \<^verbatim>\<open>TC_CONVERSION_FAILED\<close>: the call of \<^verbatim>\<open>Polynomial_Evaluate\<close>
  overwrites the sentinel that the last branch assigned. For the seven other types the claim
  holds: the lemma \<open>TC_CalculateVoltage_outside_domain\<close>.
\<close>

theorem TC_CalculateVoltage_K_outside_domain:
  "TC_CalculateVoltage TC_TYPE_K (- 300) = Inr 0
   \<and> TC_CalculateVoltage TC_TYPE_K 1400 = Inr (TC_K_correction 1400)
   \<and> 0 < TC_K_correction 1400
   \<and> TC_CONVERSION_FAILED < 0
   \<and> - 300 < fst (spec_temperature_domain TC_TYPE_K)
   \<and> snd (spec_temperature_domain TC_TYPE_K) < 1400"
proof -
  have "TC_K_Polynomial_Evaluate (- 300) = Inr 0" "TC_K_Polynomial_Evaluate 1400 = Inr 0"
    by (rule TC_K_Polynomial_Evaluate_outside; simp)+
  then have "TC_CalculateVoltage TC_TYPE_K (- 300) = Inr 0"
    and "TC_CalculateVoltage TC_TYPE_K 1400 = Inr (TC_K_correction 1400)"
    by (simp_all add: TC_CalculateVoltage_K TC_CalculateVoltage_K_def)
  moreover have "- 300 < fst (spec_temperature_domain TC_TYPE_K)"
    and "snd (spec_temperature_domain TC_TYPE_K) < 1400"
    by (simp_all add: spec_temperature_domain_def TC_TYPE_defs)
  ultimately show ?thesis
    by (simp add: TC_K_correction_pos TC_CONVERSION_FAILED_def)
qed

subsection \<open>C2: the type-K correction\<close>

text \<open>
  Claim C2. For type K and a temperature above \<open>0\<close> (and at most \<open>1372.5\<close>) the result
  is the polynomial of the second range plus
  \<open>0.1185976 * exp (-0.0001183432 * (t - 126.9686)\<^sup>2)\<close>; for type K and a temperature
  from \<open>-270.5\<close> to \<open>0\<close>, \<open>0\<close> included, it is the polynomial of the first range alone;
  for every other type it is the polynomial of the entry that holds the temperature, alone.
  At every temperature the type-K result is the value of the call of
  \<^verbatim>\<open>Polynomial_Evaluate\<close>, plus the correction term exactly when the temperature is
  above \<open>0\<close>. The correction term is positive, so adding it changes the result.
\<close>

theorem TC_CalculateVoltage_correction:
  "(0 < t \<and> t \<le> 1372.5 \<longrightarrow>
      TC_CalculateVoltage TC_TYPE_K t =
        Inr (Polynomial_sum TC_Coeff_K_TempToMV_Range2 t
             + 0.1185976 * exp (- 0.0001183432 * (t - 126.9686) ^ 2)))
   \<and> (- 270.5 \<le> t \<and> t \<le> 0 \<longrightarrow>
      TC_CalculateVoltage TC_TYPE_K t = Inr (Polynomial_sum TC_Coeff_K_TempToMV_Range1 t))
   \<and> (type \<in> TC_valid_types \<and> type \<noteq> TC_TYPE_K \<and>
      fst (TC_CalculateVoltage_switch type) = Some rs \<and>
      find (in_range t) rs = Some r \<and> pCoefficients (poly r) = Some cs \<longrightarrow>
      TC_CalculateVoltage type t = Inr (Polynomial_sum cs t))
   \<and> (\<exists>voltage. TC_K_Polynomial_Evaluate t = Inr voltage \<and>
        TC_CalculateVoltage TC_TYPE_K t =
          Inr (if 0 < t
               then voltage + 0.1185976 * exp (- 0.0001183432 * (t - 126.9686) ^ 2)
               else voltage))
   \<and> 0 < 0.1185976 * exp (- 0.0001183432 * (t - 126.9686) ^ 2)"
proof (intro conjI impI)
  assume "0 < t \<and> t \<le> 1372.5"
  then have "0 < t" "t \<le> 1372.5" by simp_all
  from TC_K_Polynomial_Evaluate_Range2 [OF this] \<open>0 < t\<close>
  show "TC_CalculateVoltage TC_TYPE_K t =
        Inr (Polynomial_sum TC_Coeff_K_TempToMV_Range2 t
             + 0.1185976 * exp (- 0.0001183432 * (t - 126.9686) ^ 2))"
    by (simp add: TC_CalculateVoltage_K TC_CalculateVoltage_K_def TC_K_correction_def
        TC_Coeff_K_TempToMV_A0_def TC_Coeff_K_TempToMV_A1_def TC_Coeff_K_TempToMV_A2_def
        Horner_Polynomial_sum)
next
  assume "- 270.5 \<le> t \<and> t \<le> 0"
  then have "- 270.5 \<le> t" "t \<le> 0" by simp_all
  from TC_K_Polynomial_Evaluate_Range1 [OF this] \<open>t \<le> 0\<close>
  show "TC_CalculateVoltage TC_TYPE_K t = Inr (Polynomial_sum TC_Coeff_K_TempToMV_Range1 t)"
    by (simp add: TC_CalculateVoltage_K TC_CalculateVoltage_K_def Horner_Polynomial_sum)
next
  assume h: "type \<in> TC_valid_types \<and> type \<noteq> TC_TYPE_K \<and>
      fst (TC_CalculateVoltage_switch type) = Some rs \<and>
      find (in_range t) rs = Some r \<and> pCoefficients (poly r) = Some cs"
  then have v: "type \<in> TC_valid_types" "type \<noteq> TC_TYPE_K" by simp_all
  from TC_CalculateVoltage_switch_valid [OF v]
  obtain rs' where r: "TC_CalculateVoltage_switch type = (Some rs', length rs')"
    and w: "list_all wf_entry rs'"
    by (elim exE conjE) (rule that)
  from h r have "rs' = rs" by simp
  with TC_CalculateVoltage_run_table [OF v(2) r w, of t] h
  show "TC_CalculateVoltage type t = Inr (Polynomial_sum cs t)"
    by (simp add: TC_CalculateVoltage_def Horner_Polynomial_sum)
next
  consider "- 270.5 \<le> t \<and> t \<le> 0" | "0 < t \<and> t \<le> 1372.5" | "t < - 270.5 \<or> 1372.5 < t"
    by linarith
  then obtain voltage where "TC_K_Polynomial_Evaluate t = Inr voltage"
    using TC_K_Polynomial_Evaluate_Range1 [of t] TC_K_Polynomial_Evaluate_Range2 [of t]
      TC_K_Polynomial_Evaluate_outside(2) [of t]
    by cases auto
  then show "\<exists>voltage. TC_K_Polynomial_Evaluate t = Inr voltage \<and>
        TC_CalculateVoltage TC_TYPE_K t =
          Inr (if 0 < t
               then voltage + 0.1185976 * exp (- 0.0001183432 * (t - 126.9686) ^ 2)
               else voltage)"
    by (simp add: TC_CalculateVoltage_K TC_CalculateVoltage_K_def TC_K_correction_def
        TC_Coeff_K_TempToMV_A0_def TC_Coeff_K_TempToMV_A1_def TC_Coeff_K_TempToMV_A2_def)
next
  show "0 < 0.1185976 * exp (- 0.0001183432 * (t - 126.9686) ^ 2)"
    by simp
qed

text \<open>
  Type K at \<open>126.9686\<close>, where the exponent vanishes and the correction is \<open>0.1185976\<close>,
  at \<open>0\<close> and at the \<open>-156\<close> of the example program; type R at \<open>100\<close>.
\<close>

theorem TC_CalculateVoltage_correction_witness:
  "TC_CalculateVoltage TC_TYPE_K 126.9686 =
      Inr (Polynomial_sum TC_Coeff_K_TempToMV_Range2 126.9686 + 0.1185976)
   \<and> TC_CalculateVoltage TC_TYPE_K 0 = Inr (Polynomial_sum TC_Coeff_K_TempToMV_Range1 0)
   \<and> TC_CalculateVoltage TC_TYPE_K (- 156) = Inr (Polynomial_sum TC_Coeff_K_TempToMV_Range1 (- 156))
   \<and> TC_CalculateVoltage TC_TYPE_R 100 = Inr (Polynomial_sum TC_Coeff_R_TempToMV_Range1 100)"
proof -
  have v: "TC_TYPE_R \<in> TC_valid_types \<and> TC_TYPE_R \<noteq> TC_TYPE_K"
    by (simp add: TC_valid_types_def TC_TYPE_defs)
  have s: "fst (TC_CalculateVoltage_switch TC_TYPE_R) = Some TC_R_TempToMV"
    by (simp add: TC_CalculateVoltage_switch_def)
  have f: "find (in_range 100) TC_R_TempToMV = Some (TC_R_TempToMV ! 0)"
    by (simp add: TC_R_TempToMV_def in_range_def)
  have p: "pCoefficients (poly (TC_R_TempToMV ! 0)) = Some TC_Coeff_R_TempToMV_Range1"
    by (simp add: TC_R_TempToMV_def)
  from TC_CalculateVoltage_correction [where t = "126.9686" and type = TC_TYPE_R]
    TC_CalculateVoltage_correction [where t = 0 and type = TC_TYPE_R]
    TC_CalculateVoltage_correction [where t = "- 156" and type = TC_TYPE_R]
    TC_CalculateVoltage_correction [where t = 100 and type = TC_TYPE_R and rs = TC_R_TempToMV
      and r = "TC_R_TempToMV ! 0" and cs = TC_Coeff_R_TempToMV_Range1]
  show ?thesis
    by (simp add: v s f p)
qed

subsection \<open>C3: the voltage domain\<close>

text \<open>
  Claim C3. For each of the eight types, \<^verbatim>\<open>TC_CalculateTemperature\<close> looks the voltage
  up in the table of the type. For a voltage in the closed domain of section 6, both ends
  included, some entry holds the voltage, and the result is the polynomial of the first such
  entry evaluated at the voltage, a number different from \<^verbatim>\<open>TC_CONVERSION_FAILED\<close>.
  For a voltage strictly outside the domain the result is \<^verbatim>\<open>TC_CONVERSION_FAILED\<close>.
\<close>

theorem TC_CalculateTemperature_domain:
  assumes "type \<in> TC_valid_types"
  shows "\<exists>rs. fst (TC_CalculateTemperature_switch type) = Some rs \<and>
     (fst (spec_voltage_domain type) \<le> v \<and> v \<le> snd (spec_voltage_domain type) \<longrightarrow>
        (\<exists>r cs. find (in_range v) rs = Some r \<and> pCoefficients (poly r) = Some cs \<and>
           TC_CalculateTemperature type v = Inr (Polynomial_sum cs v) \<and>
           Polynomial_sum cs v \<noteq> TC_CONVERSION_FAILED)) \<and>
     (v < fst (spec_voltage_domain type) \<or> snd (spec_voltage_domain type) < v \<longrightarrow>
        TC_CalculateTemperature type v = Inr TC_CONVERSION_FAILED)"
proof -
  from TC_CalculateTemperature_switch_valid [OF assms]
  obtain rs where rs: "fst (TC_CalculateTemperature_switch type) = Some rs"
    by force
  have inside: "\<exists>r cs. find (in_range v) rs = Some r \<and> pCoefficients (poly r) = Some cs \<and>
           TC_CalculateTemperature type v = Inr (Polynomial_sum cs v) \<and>
           Polynomial_sum cs v \<noteq> TC_CONVERSION_FAILED"
    if "fst (spec_voltage_domain type) \<le> v \<and> v \<le> snd (spec_voltage_domain type)"
  proof -
    from that have "fst (spec_voltage_domain type) \<le> v" "v \<le> snd (spec_voltage_domain type)"
      by simp_all
    from TC_CalculateTemperature_inside [OF assms this]
    obtain rs' r cs where "fst (TC_CalculateTemperature_switch type) = Some rs'"
      and p: "find (in_range v) rs' = Some r \<and> pCoefficients (poly r) = Some cs \<and>
           TC_CalculateTemperature type v = Inr (Polynomial_sum cs v) \<and>
           Polynomial_sum cs v \<noteq> TC_CONVERSION_FAILED"
      by blast
    with rs have "rs' = rs"
      by simp
    with p show ?thesis
      by blast
  qed
  have outside: "TC_CalculateTemperature type v = Inr TC_CONVERSION_FAILED"
    if "v < fst (spec_voltage_domain type) \<or> snd (spec_voltage_domain type) < v"
    using that by (rule TC_CalculateTemperature_outside [OF assms])
  from rs inside outside show ?thesis
    by blast
qed

text \<open>
  Type K: the voltage \<open>17.85\<close> of the example program, both ends of the domain, and a
  voltage just outside each end.
\<close>

theorem TC_CalculateTemperature_domain_witness:
  "TC_CalculateTemperature TC_TYPE_K 17.85 = Inr (Polynomial_sum TC_Coeff_K_mVToTemp_Range2 17.85)
   \<and> Polynomial_sum TC_Coeff_K_mVToTemp_Range2 17.85 \<noteq> TC_CONVERSION_FAILED
   \<and> TC_CalculateTemperature TC_TYPE_K (- 5.895) = Inr (Polynomial_sum TC_Coeff_K_mVToTemp_Range1 (- 5.895))
   \<and> TC_CalculateTemperature TC_TYPE_K 52.425 = Inr (Polynomial_sum TC_Coeff_K_mVToTemp_Range3 52.425)
   \<and> TC_CalculateTemperature TC_TYPE_K 52.426 = Inr TC_CONVERSION_FAILED
   \<and> TC_CalculateTemperature TC_TYPE_K (- 5.896) = Inr TC_CONVERSION_FAILED"
proof -
  have k: "TC_TYPE_K \<in> TC_valid_types"
    by (simp add: TC_valid_types_def)
  have s: "fst (TC_CalculateTemperature_switch TC_TYPE_K) = Some TC_K_mVToTemp"
    by (simp add: TC_CalculateTemperature_switch_def TC_TYPE_defs)
  have d: "spec_voltage_domain TC_TYPE_K = (- 5.895, 52.425)"
    by (simp add: spec_voltage_domain_def TC_TYPE_defs)
  have f: "find (in_range 17.85) TC_K_mVToTemp = Some (TC_K_mVToTemp ! Suc 0)"
    "find (in_range (- 5.895)) TC_K_mVToTemp = Some (TC_K_mVToTemp ! 0)"
    "find (in_range 52.425) TC_K_mVToTemp = Some (TC_K_mVToTemp ! 2)"
    by (simp_all add: TC_K_mVToTemp_def in_range_def)
  have p: "pCoefficients (poly (TC_K_mVToTemp ! 0)) = Some TC_Coeff_K_mVToTemp_Range1"
    "pCoefficients (poly (TC_K_mVToTemp ! Suc 0)) = Some TC_Coeff_K_mVToTemp_Range2"
    "pCoefficients (poly (TC_K_mVToTemp ! 2)) = Some TC_Coeff_K_mVToTemp_Range3"
    by (simp_all add: TC_K_mVToTemp_def)
  from TC_CalculateTemperature_domain [OF k, of "17.85"]
    TC_CalculateTemperature_domain [OF k, of "- 5.895"]
    TC_CalculateTemperature_domain [OF k, of "52.425"]
    TC_CalculateTemperature_domain [OF k, of "52.426"]
    TC_CalculateTemperature_domain [OF k, of "- 5.896"] f
  show ?thesis
    by (simp add: s d p)
qed

subsection \<open>C4: the range selector\<close>

text \<open>
  Claim C4. Called with a table and the number of its entries, \<^verbatim>\<open>FindPolyCoeff\<close> returns
  the polynomial of the first entry, in table order, whose closed interval holds the probe:
  entry \<open>i\<close> holds it and no entry before \<open>i\<close> does. When no entry holds the probe it
  returns \<^verbatim>\<open>NULL\<close>. A probe on the bound that two neighbouring entries share (the upper
  bound of the earlier one, the lower bound of the later one) selects the earlier entry,
  when no entry before them holds it.
\<close>

theorem FindPolyCoeff_first_match:
  "((\<exists>i<length rs. in_range v (rs ! i) \<and> (\<forall>j<i. \<not> in_range v (rs ! j)) \<and>
        FindPolyCoeff rs (length rs) v = Inr (Some (poly (rs ! i))))
    \<or> ((\<forall>i<length rs. \<not> in_range v (rs ! i)) \<and> FindPolyCoeff rs (length rs) v = Inr None))
   \<and> (max_bound a = b \<and> min_bound c = b \<and> min_bound a \<le> b \<and> (\<forall>r \<in> set pre. \<not> in_range b r) \<longrightarrow>
        FindPolyCoeff (pre @ a # c # post) (length (pre @ a # c # post)) b = Inr (Some (poly a)))"
proof (intro conjI impI)
  show "(\<exists>i<length rs. in_range v (rs ! i) \<and> (\<forall>j<i. \<not> in_range v (rs ! j)) \<and>
            FindPolyCoeff rs (length rs) v = Inr (Some (poly (rs ! i))))
        \<or> ((\<forall>i<length rs. \<not> in_range v (rs ! i)) \<and> FindPolyCoeff rs (length rs) v = Inr None)"
  proof (cases "find (in_range v) rs")
    case None
    then have "\<forall>i<length rs. \<not> in_range v (rs ! i)"
      by (simp add: find_None_iff)
    with None show ?thesis
      by (simp add: FindPolyCoeff_find)
  next
    case (Some r)
    then obtain i where "i < length rs" "in_range v (rs ! i)" "r = rs ! i"
      "\<forall>j<i. \<not> in_range v (rs ! j)"
      by (auto simp: find_Some_iff)
    with Some show ?thesis
      by (auto simp: FindPolyCoeff_find)
  qed
next
  assume h: "max_bound a = b \<and> min_bound c = b \<and> min_bound a \<le> b \<and> (\<forall>r \<in> set pre. \<not> in_range b r)"
  then have "find (in_range b) pre = None" and "in_range b a"
    by (simp_all add: find_None_iff in_range_def)
  then have "find (in_range b) (pre @ a # c # post) = Some a"
    by (simp add: find_append_None)
  then show "FindPolyCoeff (pre @ a # c # post) (length (pre @ a # c # post)) b = Inr (Some (poly a))"
    by (simp only: FindPolyCoeff_find option.map)
qed

text \<open>
  The type-K voltage table: the probe \<open>0\<close> is the bound shared by the first two entries and
  selects the first; the probe \<open>60\<close> lies in no entry.
\<close>

theorem FindPolyCoeff_first_match_witness:
  "FindPolyCoeff TC_K_mVToTemp (length TC_K_mVToTemp) 0 = Inr (Some (poly (TC_K_mVToTemp ! 0)))
   \<and> FindPolyCoeff TC_K_mVToTemp (length TC_K_mVToTemp) 60 = Inr None"
proof -
  define a c d where "a = TC_K_mVToTemp ! 0" and "c = TC_K_mVToTemp ! 1" and "d = TC_K_mVToTemp ! 2"
  have t: "TC_K_mVToTemp = [] @ a # c # [d]"
    by (simp add: a_def c_def d_def TC_K_mVToTemp_def)
  have b: "max_bound a = 0 \<and> min_bound c = 0 \<and> min_bound a \<le> 0 \<and> (\<forall>r \<in> set []. \<not> in_range 0 r)"
    by (simp add: a_def c_def TC_K_mVToTemp_def)
  have "\<forall>r \<in> set TC_K_mVToTemp. \<not> in_range 60 r"
    by (simp add: TC_K_mVToTemp_def in_range_def)
  then have n: "\<not> (\<exists>i<length TC_K_mVToTemp. in_range 60 (TC_K_mVToTemp ! i))"
    by auto
  have "FindPolyCoeff ([] @ a # c # [d]) (length ([] @ a # c # [d])) 0 = Inr (Some (poly a))"
    using b FindPolyCoeff_first_match [where pre = "[]" and a = a and c = c and post = "[d]"
        and b = 0 and rs = "[]" and v = 0]
    by blast
  then have "FindPolyCoeff TC_K_mVToTemp (length TC_K_mVToTemp) 0 = Inr (Some (poly a))"
    by (simp only: t)
  moreover have "FindPolyCoeff TC_K_mVToTemp (length TC_K_mVToTemp) 60 = Inr None"
    using n FindPolyCoeff_first_match [where rs = TC_K_mVToTemp and v = 60 and pre = "[]"
        and b = 0 and a = a and c = c and post = "[]"]
    by blast
  ultimately show ?thesis
    by (simp add: a_def)
qed

subsection \<open>C5: the polynomial evaluator\<close>


subsection \<open>C6: invalid types\<close>

text \<open>
  Claim C6. For a type argument that is none of the eight enumerators, both conversions
  return the failure sentinel \<open>-1.0e6\<close> and call neither \<^verbatim>\<open>FindPolyCoeff\<close> nor
  \<^verbatim>\<open>Polynomial_Evaluate\<close>.
\<close>

theorem invalid_type_fails:
  assumes "type \<notin> TC_valid_types"
  shows "TC_CalculateTemperature_run type voltage = ([], Inr TC_CONVERSION_FAILED)
       \<and> TC_CalculateVoltage_run type temperature = ([], Inr TC_CONVERSION_FAILED)
       \<and> TC_CalculateTemperature type voltage = Inr (- 1000000)
       \<and> TC_CalculateVoltage type temperature = Inr (- 1000000)"
  using assms
  by (simp add: TC_valid_types_def TC_CalculateTemperature_def TC_CalculateVoltage_def
      TC_CalculateTemperature_run_def TC_CalculateVoltage_run_def
      TC_CalculateTemperature_switch_def TC_CalculateVoltage_switch_def TC_CONVERSION_FAILED_def)

text \<open>
  The type argument \<open>8\<close>, one past the last enumerator.
\<close>

theorem invalid_type_fails_witness:
  "8 \<notin> TC_valid_types
   \<and> TC_CalculateTemperature_run 8 17.85 = ([], Inr TC_CONVERSION_FAILED)
   \<and> TC_CalculateVoltage_run 8 (- 156) = ([], Inr TC_CONVERSION_FAILED)
   \<and> TC_CalculateTemperature 8 17.85 = Inr (- 1000000)
   \<and> TC_CalculateVoltage 8 (- 156) = Inr (- 1000000)"
proof -
  have h: "8 \<notin> TC_valid_types"
    by (simp add: TC_valid_types_def TC_TYPE_defs)
  from invalid_type_fails [OF h, where voltage = "17.85" and temperature = "- 156"] h show ?thesis
    by simp
qed

subsection \<open>C7: contiguous tables\<close>

text \<open>
  Claim C7. Every table that one of the two \<^verbatim>\<open>switch\<close> statements selects (the fifteen
  tables of the source) is contiguous, the upper bound of each entry being the lower bound of
  the next, its entries do not overlap, and the union of their intervals is the domain that
  section 6 of the specification lists for that type and direction.
\<close>

theorem tables_contiguous_cover:
  "(fst (TC_CalculateTemperature_switch type) = Some rs \<longrightarrow>
      contiguous rs \<and> non_overlapping rs \<and>
      covered rs = {fst (spec_voltage_domain type) .. snd (spec_voltage_domain type)})
   \<and> (fst (TC_CalculateVoltage_switch type) = Some rs \<longrightarrow>
      contiguous rs \<and> non_overlapping rs \<and>
      covered rs = {fst (spec_temperature_domain type) .. snd (spec_temperature_domain type)})"
proof (rule conjI; rule impI)
  assume h: "fst (TC_CalculateTemperature_switch type) = Some rs"
  then have "type \<in> TC_valid_types"
    by (rule switch_Some_valid(1))
  from TC_CalculateTemperature_switch_valid [OF this]
  obtain rs' where r: "TC_CalculateTemperature_switch type = (Some rs', length rs')"
    and p: "contiguous rs' \<and> non_overlapping rs' \<and>
      covered rs' = {fst (spec_voltage_domain type) .. snd (spec_voltage_domain type)}"
    by (elim exE conjE) (rule that, assumption, intro conjI)
  from h r have "rs' = rs"
    by simp
  with p show "contiguous rs \<and> non_overlapping rs \<and>
      covered rs = {fst (spec_voltage_domain type) .. snd (spec_voltage_domain type)}"
    by (simp only:)
next
  assume h: "fst (TC_CalculateVoltage_switch type) = Some rs"
  then have "type \<in> TC_valid_types \<and> type \<noteq> TC_TYPE_K"
    by (rule switch_Some_valid(2))
  then have "type \<in> TC_valid_types" "type \<noteq> TC_TYPE_K"
    by simp_all
  from TC_CalculateVoltage_switch_valid [OF this]
  obtain rs' where r: "TC_CalculateVoltage_switch type = (Some rs', length rs')"
    and p: "contiguous rs' \<and> non_overlapping rs' \<and>
      covered rs' = {fst (spec_temperature_domain type) .. snd (spec_temperature_domain type)}"
    by (elim exE conjE) (rule that, assumption, intro conjI)
  from h r have "rs' = rs"
    by simp
  with p show "contiguous rs \<and> non_overlapping rs \<and>
      covered rs = {fst (spec_temperature_domain type) .. snd (spec_temperature_domain type)}"
    by (simp only:)
qed

text \<open>
  The voltage table of type R and the temperature table of type N.
\<close>

theorem tables_contiguous_cover_witness:
  "fst (TC_CalculateTemperature_switch TC_TYPE_R) = Some TC_R_mVToTemp
   \<and> contiguous TC_R_mVToTemp \<and> non_overlapping TC_R_mVToTemp
   \<and> covered TC_R_mVToTemp = {- 0.228 .. 21.105}
   \<and> fst (TC_CalculateVoltage_switch TC_TYPE_N) = Some TC_N_TempToMV
   \<and> contiguous TC_N_TempToMV \<and> non_overlapping TC_N_TempToMV
   \<and> covered TC_N_TempToMV = {- 270.5 .. 1300.5}"
  using tables_contiguous_cover [of TC_TYPE_R TC_R_mVToTemp]
    tables_contiguous_cover [of TC_TYPE_N TC_N_TempToMV]
  by (simp add: TC_CalculateTemperature_switch_def TC_CalculateVoltage_switch_def
      spec_voltage_domain_def spec_temperature_domain_def TC_TYPE_defs)

subsection \<open>C8: the round trip\<close>




subsection \<open>C9: zero coefficients\<close>

text \<open>
  Claim C9. Called with length \<open>0\<close>, \<^verbatim>\<open>Polynomial_Evaluate\<close> returns \<open>0\<close> for every
  pointer, \<^verbatim>\<open>NULL\<close> included: the counter starts at \<open>-1\<close>, the loop body never runs and
  no element of the array is read. For a temperature below \<open>-270.5\<close> or above \<open>1372.5\<close>
  the type-K case reaches the call with the pointer \<^verbatim>\<open>NULL\<close> and the length \<open>0\<close>, the
  call gives \<open>voltage\<close> the value \<open>0\<close>, and the conversion returns a number, not a
  fault: that \<open>0\<close>, to which the statement after the call adds the correction when the
  temperature is positive.
\<close>

theorem Polynomial_Evaluate_zero_length:
  "Polynomial_Evaluate pCoefficient 0 input = Inr 0
   \<and> \<not> 0 \<le> sint (0 - 1 :: 8 word)
   \<and> (t < - 270.5 \<or> 1372.5 < t \<longrightarrow>
        TC_K_TempToMV_select t = (None, 0)
        \<and> TC_K_Polynomial_Evaluate t = Polynomial_Evaluate None 0 t
        \<and> TC_K_Polynomial_Evaluate t = Inr 0
        \<and> TC_CalculateVoltage TC_TYPE_K t = Inr (if t > 0 then 0 + TC_K_correction t else 0))"
proof (intro conjI impI)
  show "Polynomial_Evaluate pCoefficient 0 input = Inr 0"
    by (rule Polynomial_Evaluate_length_0)
  show "\<not> 0 \<le> sint (0 - 1 :: 8 word)"
    by simp
next
  assume h: "t < - 270.5 \<or> 1372.5 < t"
  show "TC_K_TempToMV_select t = (None, 0)"
    by (rule TC_K_Polynomial_Evaluate_outside [OF h])
  then show "TC_K_Polynomial_Evaluate t = Polynomial_Evaluate None 0 t"
    by (simp add: TC_K_Polynomial_Evaluate_def)
  show "TC_K_Polynomial_Evaluate t = Inr 0"
    by (rule TC_K_Polynomial_Evaluate_outside [OF h])
  then show "TC_CalculateVoltage TC_TYPE_K t = Inr (if t > 0 then 0 + TC_K_correction t else 0)"
    by (simp add: TC_CalculateVoltage_K TC_CalculateVoltage_K_def)
qed

text \<open>
  The temperatures \<open>-300\<close> and \<open>1400\<close>.
\<close>

theorem Polynomial_Evaluate_zero_length_witness:
  "Polynomial_Evaluate None 0 (- 300) = Inr 0
   \<and> TC_K_TempToMV_select (- 300) = (None, 0)
   \<and> TC_K_Polynomial_Evaluate (- 300) = Inr 0
   \<and> TC_CalculateVoltage TC_TYPE_K (- 300) = Inr 0
   \<and> TC_K_Polynomial_Evaluate 1400 = Inr 0
   \<and> TC_CalculateVoltage TC_TYPE_K 1400 = Inr (TC_K_correction 1400)"
  using Polynomial_Evaluate_zero_length [where pCoefficient = None and input = "- 300" and t = "- 300"]
    Polynomial_Evaluate_zero_length [where pCoefficient = None and input = "1400" and t = "1400"]
  by simp

subsection \<open>C10: zero degrees\<close>

text \<open>
  Claim C10. For each of the eight types \<^verbatim>\<open>TC_CalculateVoltage\<close> returns \<open>0\<close> at the
  temperature \<open>0\<close>. For the seven types with a table, the first entry that holds \<open>0\<close> has
  the constant coefficient \<open>0\<close>, and the recurrence at \<open>0\<close> gives the constant coefficient.
  For type K the first range is chosen, its constant coefficient is \<open>0\<close>, and the correction
  is not added.
\<close>

theorem TC_CalculateVoltage_at_zero:
  assumes "type \<in> TC_valid_types"
  shows "TC_CalculateVoltage type 0 = Inr 0
     \<and> (type \<noteq> TC_TYPE_K \<longrightarrow>
          (\<exists>rs r cs. fst (TC_CalculateVoltage_switch type) = Some rs \<and>
             find (in_range 0) rs = Some r \<and> pCoefficients (poly r) = Some cs \<and>
             cs \<noteq> [] \<and> cs ! 0 = 0 \<and> Horner cs 0 = cs ! 0))
     \<and> (type = TC_TYPE_K \<longrightarrow>
          fst (TC_K_TempToMV_select 0) = Some TC_Coeff_K_TempToMV_Range1 \<and>
          TC_Coeff_K_TempToMV_Range1 ! 0 = 0 \<and>
          TC_K_Polynomial_Evaluate 0 = Inr (TC_Coeff_K_TempToMV_Range1 ! 0) \<and>
          snd (TC_CalculateVoltage_K 0) = TC_K_Polynomial_Evaluate 0)"
proof (cases "type = TC_TYPE_K")
  case True
  have n: "TC_Coeff_K_TempToMV_Range1 \<noteq> []" and z: "TC_Coeff_K_TempToMV_Range1 ! 0 = 0"
    by (simp_all add: TC_Coeff_K_TempToMV_Range1_def)
  have e: "TC_K_Polynomial_Evaluate 0 = Inr (TC_Coeff_K_TempToMV_Range1 ! 0)"
    using TC_K_Polynomial_Evaluate_Range1 [of 0] by (simp add: Horner_at_0 [OF n])
  have "fst (TC_K_TempToMV_select 0) = Some TC_Coeff_K_TempToMV_Range1"
    by (simp add: TC_K_TempToMV_select_def)
  with True n z e show ?thesis
    by (simp add: TC_CalculateVoltage_K TC_CalculateVoltage_K_def)
next
  case False
  have key: ?thesis
    if "TC_CalculateVoltage_switch type = (Some rs, length rs)" and "list_all wf_entry rs"
      and "find (in_range 0) rs = Some (rs ! 0)"
      and "pCoefficients (poly (rs ! 0)) = Some cs" and "cs \<noteq> []" and "cs ! 0 = 0"
    for rs cs
  proof -
    from TC_CalculateVoltage_run_table [OF False that(1,2), of 0] that(3-)
    have "TC_CalculateVoltage type 0 = Inr 0"
      by (simp add: TC_CalculateVoltage_def Horner_at_0)
    moreover from that have "\<exists>rs r cs. fst (TC_CalculateVoltage_switch type) = Some rs \<and>
             find (in_range 0) rs = Some r \<and> pCoefficients (poly r) = Some cs \<and>
             cs \<noteq> [] \<and> cs ! 0 = 0 \<and> Horner cs 0 = cs ! 0"
      by (intro exI [of _ rs] exI [of _ "rs ! 0"] exI [of _ cs]) (simp add: Horner_at_0)
    ultimately show ?thesis
      using False by simp
  qed
  from assms False consider "type = TC_TYPE_R" | "type = TC_TYPE_S" | "type = TC_TYPE_B"
    | "type = TC_TYPE_J" | "type = TC_TYPE_T" | "type = TC_TYPE_E" | "type = TC_TYPE_N"
    by (auto simp: TC_valid_types_def)
  then show ?thesis
  proof cases
    case 1
    show ?thesis
      by (rule key [of TC_R_TempToMV TC_Coeff_R_TempToMV_Range1])
        (simp_all add: 1 TC_CalculateVoltage_switch_def TC_TYPE_defs TC_R_TempToMV_len_def
          wf_TempToMV, simp_all add: TC_R_TempToMV_def in_range_def TC_Coeff_R_TempToMV_Range1_def)
  next
    case 2
    show ?thesis
      by (rule key [of TC_S_TempToMV TC_Coeff_S_TempToMV_Range1])
        (simp_all add: 2 TC_CalculateVoltage_switch_def TC_TYPE_defs TC_S_TempToMV_len_def
          wf_TempToMV, simp_all add: TC_S_TempToMV_def in_range_def TC_Coeff_S_TempToMV_Range1_def)
  next
    case 3
    show ?thesis
      by (rule key [of TC_B_TempToMV TC_Coeff_B_TempToMV_Range1])
        (simp_all add: 3 TC_CalculateVoltage_switch_def TC_TYPE_defs TC_B_TempToMV_len_def
          wf_TempToMV, simp_all add: TC_B_TempToMV_def in_range_def TC_Coeff_B_TempToMV_Range1_def)
  next
    case 4
    show ?thesis
      by (rule key [of TC_J_TempToMV TC_Coeff_J_TempToMV_Range1])
        (simp_all add: 4 TC_CalculateVoltage_switch_def TC_TYPE_defs TC_J_TempToMV_len_def
          wf_TempToMV, simp_all add: TC_J_TempToMV_def in_range_def TC_Coeff_J_TempToMV_Range1_def)
  next
    case 5
    show ?thesis
      by (rule key [of TC_T_TempToMV TC_Coeff_T_TempToMV_Range1])
        (simp_all add: 5 TC_CalculateVoltage_switch_def TC_TYPE_defs TC_T_TempToMV_len_def
          wf_TempToMV, simp_all add: TC_T_TempToMV_def in_range_def TC_Coeff_T_TempToMV_Range1_def)
  next
    case 6
    show ?thesis
      by (rule key [of TC_E_TempToMV TC_Coeff_E_TempToMV_Range1])
        (simp_all add: 6 TC_CalculateVoltage_switch_def TC_TYPE_defs TC_E_TempToMV_len_def
          wf_TempToMV, simp_all add: TC_E_TempToMV_def in_range_def TC_Coeff_E_TempToMV_Range1_def)
  next
    case 7
    show ?thesis
      by (rule key [of TC_N_TempToMV TC_Coeff_N_TempToMV_Range1])
        (simp_all add: 7 TC_CalculateVoltage_switch_def TC_TYPE_defs TC_N_TempToMV_len_def
          wf_TempToMV, simp_all add: TC_N_TempToMV_def in_range_def TC_Coeff_N_TempToMV_Range1_def)
  qed
qed

text \<open>
  Types K and B.
\<close>

theorem TC_CalculateVoltage_at_zero_witness:
  "TC_CalculateVoltage TC_TYPE_K 0 = Inr 0 \<and> TC_CalculateVoltage TC_TYPE_B 0 = Inr 0"
proof -
  have "TC_TYPE_K \<in> TC_valid_types" "TC_TYPE_B \<in> TC_valid_types"
    by (simp_all add: TC_valid_types_def)
  from TC_CalculateVoltage_at_zero [OF this(1)] TC_CalculateVoltage_at_zero [OF this(2)]
  show ?thesis
    by (elim conjE) (intro conjI)
qed

end
